theory Spec2Isabelle
  imports Main "HOL-Library.Signed_Division"
begin

section \<open>Values shared by the services\<close>

text \<open>
  A call that can throw returns a sum: \<open>Inl msg\<close> is \<^verbatim>\<open>throw new Error(msg)\<close> (or a
  rejected promise whose error carries that message), \<open>Inr v\<close> is the returned value.
  The services are asynchronous, but every call is awaited before the next statement, so
  one run of a method is a sequence of steps over explicit state.
\<close>

type_synonym 'a result = "string + 'a"

text \<open>\<^verbatim>\<open>String.prototype.toLowerCase\<close> on the ASCII range (addresses are hex strings).\<close>

definition lower_char :: "char \<Rightarrow> char" where
  "lower_char c =
     (case map_of (zip ''ABCDEFGHIJKLMNOPQRSTUVWXYZ'' ''abcdefghijklmnopqrstuvwxyz'') c of
        None \<Rightarrow> c
      | Some l \<Rightarrow> l)"

definition toLowerCase :: "string \<Rightarrow> string" where
  "toLowerCase s = map lower_char s"

text \<open>A JavaScript string used as a condition: \<^verbatim>\<open>undefined\<close> and \<^verbatim>\<open>''\<close> are falsy.\<close>

definition truthy :: "string option \<Rightarrow> bool" where
  "truthy s = (case s of None \<Rightarrow> False | Some v \<Rightarrow> v \<noteq> [])"

subsection \<open>The relay request (services/relayer.ts)\<close>

datatype token_type = ERC20 | ERC721 | ERC1155

text \<open>\<^verbatim>\<open>MetaTransactionRequest\<close>; optional fields are \<open>None\<close> when absent.\<close>

record MetaTransactionRequest =
  req_from :: string
  req_to :: string
  req_value :: string
  req_gas :: string
  req_nonce :: string
  req_data :: string
  req_signature :: string
  req_network :: string
  req_tokenAddress :: "string option"
  req_tokenType :: "token_type option"
  req_amount :: "string option"
  req_tokenId :: "string option"

section \<open>The Redis client and \<^verbatim>\<open>RedisService\<close> (services/redis.ts)\<close>

text \<open>
  The part of the Redis server the services use: integer-valued string keys (the nonce
  cursors, written only through \<^verbatim>\<open>SET nonce.toString()\<close> and \<^verbatim>\<open>INCR\<close>), their
  time-to-live in seconds, sorted sets as lists of (member, score), and the entries
  \<^verbatim>\<open>{request, timestamp}\<close> of \<^verbatim>\<open>trackPendingTransaction\<close> (stored as JSON text).
  When \<open>redis_failure\<close> is \<open>Some msg\<close> every command throws \<open>msg\<close>.
\<close>

record RedisClient =
  redis_failure :: "string option"
  strings :: "string \<rightharpoonup> int"
  ttl :: "string \<rightharpoonup> int"
  zsets :: "string \<Rightarrow> (string \<times> int) list"
  pending_tx :: "string \<rightharpoonup> MetaTransactionRequest \<times> int"

definition client_get :: "RedisClient \<Rightarrow> string \<Rightarrow> int option result" where
  "client_get r key = (case redis_failure r of Some e \<Rightarrow> Inl e | None \<Rightarrow> Inr (strings r key))"

text \<open>\<^verbatim>\<open>INCR\<close>: a missing key counts as 0; the incremented value is stored and returned.\<close>

definition client_incr :: "RedisClient \<Rightarrow> string \<Rightarrow> int result \<times> RedisClient" where
  "client_incr r key =
     (case redis_failure r of
        Some e \<Rightarrow> (Inl e, r)
      | None \<Rightarrow>
          (let n = (case strings r key of None \<Rightarrow> 0 | Some v \<Rightarrow> v) + 1
           in (Inr n, r\<lparr>strings := (strings r)(key \<mapsto> n)\<rparr>)))"

definition client_set :: "RedisClient \<Rightarrow> string \<Rightarrow> int \<Rightarrow> unit result \<times> RedisClient" where
  "client_set r key v =
     (case redis_failure r of
        Some e \<Rightarrow> (Inl e, r)
      | None \<Rightarrow> (Inr (), r\<lparr>strings := (strings r)(key \<mapsto> v), ttl := (ttl r)(key := None)\<rparr>))"

text \<open>\<^verbatim>\<open>EXPIRE\<close> sets the time-to-live of an existing key only.\<close>

definition client_expire :: "RedisClient \<Rightarrow> string \<Rightarrow> int \<Rightarrow> unit result \<times> RedisClient" where
  "client_expire r key secs =
     (case redis_failure r of
        Some e \<Rightarrow> (Inl e, r)
      | None \<Rightarrow>
          (Inr (), if strings r key = None then r else r\<lparr>ttl := (ttl r)(key \<mapsto> secs)\<rparr>))"

text \<open>\<^verbatim>\<open>ZREMRANGEBYSCORE key lo hi\<close> removes the members whose score lies in \<open>[lo, hi]\<close>.\<close>

definition client_zRemRangeByScore ::
  "RedisClient \<Rightarrow> string \<Rightarrow> int \<Rightarrow> int \<Rightarrow> unit result \<times> RedisClient" where
  "client_zRemRangeByScore r key lo hi =
     (case redis_failure r of
        Some e \<Rightarrow> (Inl e, r)
      | None \<Rightarrow>
          (Inr (), r\<lparr>zsets := (zsets r)
                     (key := filter (\<lambda>(m, s). \<not> (lo \<le> s \<and> s \<le> hi)) (zsets r key))\<rparr>))"

definition client_zCard :: "RedisClient \<Rightarrow> string \<Rightarrow> int result" where
  "client_zCard r key =
     (case redis_failure r of Some e \<Rightarrow> Inl e | None \<Rightarrow> Inr (int (length (zsets r key))))"

definition client_setEx ::
  "RedisClient \<Rightarrow> string \<Rightarrow> int \<Rightarrow> MetaTransactionRequest \<times> int \<Rightarrow> unit result \<times> RedisClient" where
  "client_setEx r key secs v =
     (case redis_failure r of
        Some e \<Rightarrow> (Inl e, r)
      | None \<Rightarrow> (Inr (), r\<lparr>pending_tx := (pending_tx r)(key \<mapsto> v), ttl := (ttl r)(key \<mapsto> secs)\<rparr>))"

text \<open>\<^verbatim>\<open>RedisService.getKey\<close>: the configured key prefix followed by the key.\<close>

definition getKey :: "string \<Rightarrow> string \<Rightarrow> string" where
  "getKey keyPrefix key = keyPrefix @ key"

definition nonceKey :: "string \<Rightarrow> string \<Rightarrow> string \<Rightarrow> string" where
  "nonceKey keyPrefix address network =
     getKey keyPrefix (''nonce:'' @ network @ '':'' @ toLowerCase address)"

text \<open>
  \<^verbatim>\<open>RedisService.getNextNonce\<close>: \<^verbatim>\<open>INCR\<close>, then \<^verbatim>\<open>EXPIRE key 3600\<close>, then the value
  before the increment. A command that throws is logged and rethrown.
\<close>

definition RedisService_getNextNonce ::
  "string \<Rightarrow> RedisClient \<Rightarrow> string \<Rightarrow> string \<Rightarrow> int result \<times> RedisClient" where
  "RedisService_getNextNonce keyPrefix r address network =
     (let key = nonceKey keyPrefix address network in
      case client_incr r key of
        (Inl e, r1) \<Rightarrow> (Inl e, r1)
      | (Inr nonce, r1) \<Rightarrow>
          (case client_expire r1 key 3600 of
             (Inl e, r2) \<Rightarrow> (Inl e, r2)
           | (Inr u, r2) \<Rightarrow> (Inr (nonce - 1), r2)))"

definition RedisService_setNonce ::
  "string \<Rightarrow> RedisClient \<Rightarrow> string \<Rightarrow> string \<Rightarrow> int \<Rightarrow> unit result \<times> RedisClient" where
  "RedisService_setNonce keyPrefix r address network nonce =
     (let key = nonceKey keyPrefix address network in
      case client_set r key nonce of
        (Inl e, r1) \<Rightarrow> (Inl e, r1)
      | (Inr u, r1) \<Rightarrow> client_expire r1 key 3600)"

text \<open>
  \<^verbatim>\<open>RedisService.getCurrentNonce\<close>: \<^verbatim>\<open>nonce ? parseInt(nonce, 10) : null\<close>. The stored
  text is the decimal form of an integer, never empty, so every stored value is truthy.
\<close>

definition RedisService_getCurrentNonce ::
  "string \<Rightarrow> RedisClient \<Rightarrow> string \<Rightarrow> string \<Rightarrow> int option result" where
  "RedisService_getCurrentNonce keyPrefix r address network =
     client_get r (nonceKey keyPrefix address network)"

definition RedisService_trackPendingTransaction ::
  "string \<Rightarrow> RedisClient \<Rightarrow> string \<Rightarrow> MetaTransactionRequest \<times> int
     \<Rightarrow> unit result \<times> RedisClient" where
  "RedisService_trackPendingTransaction keyPrefix r txHash data =
     client_setEx r (getKey keyPrefix (''pending_tx:'' @ txHash)) 3600 data"

section \<open>The nonce allocator: \<^verbatim>\<open>RelayerService.getNextNonce\<close> (services/relayer.ts)\<close>

text \<open>
  \<open>signerAddress\<close> is the outcome of \<^verbatim>\<open>signer.getAddress()\<close> and \<open>onChain address\<close>
  that of \<^verbatim>\<open>provider.getTransactionCount(address, 'pending')\<close> at the time of this call. With a
  cached cursor the Redis increment is returned; without one the on-chain count is stored
  as the cursor and returned as it is. The definition is one call executed alone: the
  source awaits the chain between reading the cursor and writing it and takes no lock, and
  calls of other requests that run in between are not part of this model.
\<close>

definition RelayerService_getNextNonce ::
  "string \<Rightarrow> string result \<Rightarrow> (string \<Rightarrow> int result) \<Rightarrow> RedisClient \<Rightarrow> string
     \<Rightarrow> int result \<times> RedisClient" where
  "RelayerService_getNextNonce keyPrefix signerAddress onChain r network =
     (case signerAddress of
        Inl e \<Rightarrow> (Inl e, r)
      | Inr address \<Rightarrow>
          (case RedisService_getCurrentNonce keyPrefix r address network of
             Inl e \<Rightarrow> (Inl e, r)
           | Inr (Some cachedNonce) \<Rightarrow> RedisService_getNextNonce keyPrefix r address network
           | Inr None \<Rightarrow>
               (case onChain address of
                  Inl e \<Rightarrow> (Inl e, r)
                | Inr onChainNonce \<Rightarrow>
                    (case RedisService_setNonce keyPrefix r address network onChainNonce of
                       (Inl e, r1) \<Rightarrow> (Inl e, r1)
                     | (Inr u, r1) \<Rightarrow> (Inr onChainNonce, r1)))))"

text \<open>A Redis server that holds nothing and answers every command.\<close>

definition empty_redis :: RedisClient where
  "empty_redis =
     \<lparr>redis_failure = None, strings = Map.empty, ttl = Map.empty,
      zsets = (\<lambda>k. []), pending_tx = Map.empty\<rparr>"

text \<open>
  Successive acquisitions for one relayer address on one network; the list gives the
  on-chain pending count at the time of each acquisition.
\<close>

fun acquire_all ::
  "string \<Rightarrow> string \<Rightarrow> string \<Rightarrow> int list \<Rightarrow> RedisClient \<Rightarrow> int result list \<times> RedisClient" where
  "acquire_all keyPrefix address network [] r = ([], r)"
| "acquire_all keyPrefix address network (c # cs) r =
     (case RelayerService_getNextNonce keyPrefix (Inr address) (\<lambda>a. Inr c) r network of
        (x, r1) \<Rightarrow>
          (case acquire_all keyPrefix address network cs r1 of (xs, r2) \<Rightarrow> (x # xs, r2)))"

section \<open>Policy rules (services/policy.ts)\<close>

record PolicyResult =
  allowed :: bool
  reason :: "string option"

record AllowlistRule =
  addresses :: "string list"

record QuotaRule =
  maxTransactionsPerHour :: int
  maxTransactionsPerDay :: int
  maxValuePerTransaction :: string
  maxValuePerHour :: string
  maxValuePerDay :: string

record GasLimitRule =
  maxGasLimit :: string
  maxGasPrice :: string

record TokenLimitRule =
  allowedTokens :: "string list"
  maxAmountPerTransaction :: "string \<rightharpoonup> string"
  maxAmountPerHour :: "string \<rightharpoonup> string"
  maxAmountPerDay :: "string \<rightharpoonup> string"

text \<open>The four rule tables of \<^verbatim>\<open>PolicyEngine\<close>, each keyed by the rule's target.\<close>

record PolicyEngine =
  allowlistRules :: "string \<rightharpoonup> AllowlistRule"
  quotaRules :: "string \<rightharpoonup> QuotaRule"
  gasLimitRules :: "string \<rightharpoonup> GasLimitRule"
  tokenLimitRules :: "string \<rightharpoonup> TokenLimitRule"
  isInitialized :: bool

definition allow :: PolicyResult where
  "allow = \<lparr>allowed = True, reason = None\<rparr>"

definition reject :: "string \<Rightarrow> PolicyResult" where
  "reject msg = \<lparr>allowed = False, reason = Some msg\<rparr>"

text \<open>
  \<^verbatim>\<open>BigInt(s)\<close> belongs to the JavaScript runtime: it is a parameter \<open>bi\<close> of every
  function that converts a string, \<open>Inl msg\<close> being the SyntaxError it throws on a string
  that is not an integer literal.
\<close>

type_synonym bigint_fn = "string \<Rightarrow> int result"

section \<open>\<^verbatim>\<open>PolicyEngine\<close>: the rule checks (services/policy.ts)\<close>

definition in_addresses :: "string list \<Rightarrow> string \<Rightarrow> bool" where
  "in_addresses addrs a = list_ex (\<lambda>addr. toLowerCase addr = toLowerCase a) addrs"

definition checkAllowlist :: "PolicyEngine \<Rightarrow> MetaTransactionRequest \<Rightarrow> PolicyResult" where
  "checkAllowlist pe request =
     (if (case allowlistRules pe ''*'' of
            None \<Rightarrow> False
          | Some globalRule \<Rightarrow> \<not> in_addresses (addresses globalRule) (req_from request))
      then reject ''Address not in global allowlist''
      else if (case allowlistRules pe (req_network request) of
                 None \<Rightarrow> False
               | Some networkRule \<Rightarrow> \<not> in_addresses (addresses networkRule) (req_from request))
      then reject (''Address not in '' @ req_network request @ '' allowlist'')
      else allow)"

text \<open>
  \<^verbatim>\<open>getTransactionCount\<close>: on the raw client, trim the sorted set
  \<^verbatim>\<open>tx_count:<network>:<address>\<close> to the window and return its cardinality. \<open>now\<close> is
  \<^verbatim>\<open>Date.now()\<close> in milliseconds. A Redis error is caught here and counts as 0.
\<close>

definition txCountKey :: "string \<Rightarrow> string \<Rightarrow> string" where
  "txCountKey network address = ''tx_count:'' @ network @ '':'' @ address"

definition getTransactionCount ::
  "RedisClient \<Rightarrow> int \<Rightarrow> string \<Rightarrow> string \<Rightarrow> int \<Rightarrow> int \<times> RedisClient" where
  "getTransactionCount r now address network timeWindowMs =
     (let key = txCountKey network address; windowStart = now - timeWindowMs in
      case client_zRemRangeByScore r key 0 windowStart of
        (Inl e, r1) \<Rightarrow> (0, r1)
      | (Inr u, r1) \<Rightarrow> (case client_zCard r1 key of Inl e \<Rightarrow> (0, r1) | Inr n \<Rightarrow> (n, r1)))"

text \<open>
  \<^verbatim>\<open>getTransactionValue\<close> and \<^verbatim>\<open>getTokenTransactionAmount\<close> read nothing: the source
  returns \<^verbatim>\<open>BigInt(0)\<close> "as a placeholder".
\<close>

definition getTransactionValue :: "string \<Rightarrow> string \<Rightarrow> int \<Rightarrow> int" where
  "getTransactionValue address network timeWindowMs = 0"

definition getTokenTransactionAmount :: "string \<Rightarrow> string \<Rightarrow> string \<Rightarrow> int \<Rightarrow> int" where
  "getTokenTransactionAmount address tokenAddress network timeWindowMs = 0"

definition oneHour :: int where
  "oneHour = 60 * 60 * 1000"

definition oneDay :: int where
  "oneDay = 24 * oneHour"

definition checkAddressQuota ::
  "bigint_fn \<Rightarrow> RedisClient \<Rightarrow> int \<Rightarrow> string \<Rightarrow> MetaTransactionRequest \<Rightarrow> QuotaRule
     \<Rightarrow> PolicyResult result \<times> RedisClient" where
  "checkAddressQuota bi r now address request rule =
     (case getTransactionCount r now address (req_network request) oneHour of
        (hourlyTxCount, r1) \<Rightarrow>
     if hourlyTxCount \<ge> maxTransactionsPerHour rule
     then (Inr (reject ''Hourly transaction limit exceeded''), r1)
     else
     (case getTransactionCount r1 now address (req_network request) oneDay of
        (dailyTxCount, r2) \<Rightarrow>
     if dailyTxCount \<ge> maxTransactionsPerDay rule
     then (Inr (reject ''Daily transaction limit exceeded''), r2)
     else
     (case bi (req_value request) of Inl e \<Rightarrow> (Inl e, r2) | Inr txValue \<Rightarrow>
     (case bi (maxValuePerTransaction rule) of Inl e \<Rightarrow> (Inl e, r2) | Inr maxTxValue \<Rightarrow>
     if txValue > maxTxValue
     then (Inr (reject ''Transaction value exceeds limit''), r2)
     else
     (let hourlyValue = getTransactionValue address (req_network request) oneHour in
     (case bi (maxValuePerHour rule) of Inl e \<Rightarrow> (Inl e, r2) | Inr maxHourlyValue \<Rightarrow>
     if hourlyValue + txValue > maxHourlyValue
     then (Inr (reject ''Hourly value limit would be exceeded''), r2)
     else
     (let dailyValue = getTransactionValue address (req_network request) oneDay in
     (case bi (maxValuePerDay rule) of Inl e \<Rightarrow> (Inl e, r2) | Inr maxDailyValue \<Rightarrow>
     if dailyValue + txValue > maxDailyValue
     then (Inr (reject ''Daily value limit would be exceeded''), r2)
     else (Inr allow, r2)))))))))"

definition checkQuotas ::
  "bigint_fn \<Rightarrow> PolicyEngine \<Rightarrow> RedisClient \<Rightarrow> int \<Rightarrow> MetaTransactionRequest
     \<Rightarrow> PolicyResult result \<times> RedisClient" where
  "checkQuotas bi pe r now request =
     (let address = toLowerCase (req_from request) in
      case (case quotaRules pe ''*'' of
              None \<Rightarrow> (Inr allow, r)
            | Some globalRule \<Rightarrow> checkAddressQuota bi r now address request globalRule) of
        (Inl e, r1) \<Rightarrow> (Inl e, r1)
      | (Inr quotaResult, r1) \<Rightarrow>
          if \<not> allowed quotaResult then (Inr quotaResult, r1)
          else
            (case quotaRules pe address of
               None \<Rightarrow> (Inr allow, r1)
             | Some addressRule \<Rightarrow>
                 (case checkAddressQuota bi r1 now address request addressRule of
                    (Inl e, r2) \<Rightarrow> (Inl e, r2)
                  | (Inr quotaResult2, r2) \<Rightarrow>
                      if \<not> allowed quotaResult2 then (Inr quotaResult2, r2)
                      else (Inr allow, r2))))"

definition checkGasLimits ::
  "bigint_fn \<Rightarrow> PolicyEngine \<Rightarrow> MetaTransactionRequest \<Rightarrow> PolicyResult result" where
  "checkGasLimits bi pe request =
     (case (case gasLimitRules pe ''*'' of
              None \<Rightarrow> Inr False
            | Some globalRule \<Rightarrow>
                (case bi (req_gas request) of Inl e \<Rightarrow> Inl e | Inr gasLimit \<Rightarrow>
                 (case bi (maxGasLimit globalRule) of Inl e \<Rightarrow> Inl e | Inr maxGasLimit' \<Rightarrow>
                  Inr (gasLimit > maxGasLimit')))) of
        Inl e \<Rightarrow> Inl e
      | Inr True \<Rightarrow> Inr (reject ''Gas limit exceeds maximum allowed'')
      | Inr False \<Rightarrow>
          (case (case gasLimitRules pe (req_network request) of
                   None \<Rightarrow> Inr False
                 | Some networkRule \<Rightarrow>
                     (case bi (req_gas request) of Inl e \<Rightarrow> Inl e | Inr gasLimit \<Rightarrow>
                      (case bi (maxGasLimit networkRule) of Inl e \<Rightarrow> Inl e | Inr maxGasLimit' \<Rightarrow>
                       Inr (gasLimit > maxGasLimit')))) of
             Inl e \<Rightarrow> Inl e
           | Inr True \<Rightarrow> Inr (reject (''Gas limit exceeds '' @ req_network request @ '' maximum''))
           | Inr False \<Rightarrow> Inr allow))"

text \<open>
  One cap of \<^verbatim>\<open>checkTokenAmountLimits\<close>: \<^verbatim>\<open>max && used + txAmount > BigInt(max)\<close>.
  A missing or empty cap is falsy and is not converted.
\<close>

definition exceeds_cap :: "bigint_fn \<Rightarrow> string option \<Rightarrow> int \<Rightarrow> bool result" where
  "exceeds_cap bi cap projected =
     (if truthy cap
      then (case cap of
              None \<Rightarrow> Inr False
            | Some m \<Rightarrow> (case bi m of Inl e \<Rightarrow> Inl e | Inr maxAmount \<Rightarrow> Inr (projected > maxAmount)))
      else Inr False)"

definition checkTokenAmountLimits ::
  "bigint_fn \<Rightarrow> string \<Rightarrow> string \<Rightarrow> string \<Rightarrow> string \<Rightarrow> TokenLimitRule \<Rightarrow> PolicyResult result" where
  "checkTokenAmountLimits bi address tokenAddress amount' network rule =
     (case bi amount' of Inl e \<Rightarrow> Inl e | Inr txAmount \<Rightarrow>
     (case exceeds_cap bi (maxAmountPerTransaction rule tokenAddress) txAmount of
        Inl e \<Rightarrow> Inl e
      | Inr True \<Rightarrow> Inr (reject ''Token amount exceeds per-transaction limit'')
      | Inr False \<Rightarrow>
     (let hourlyAmount = getTokenTransactionAmount address tokenAddress network oneHour in
     (case exceeds_cap bi (maxAmountPerHour rule tokenAddress) (hourlyAmount + txAmount) of
        Inl e \<Rightarrow> Inl e
      | Inr True \<Rightarrow> Inr (reject ''Token hourly limit would be exceeded'')
      | Inr False \<Rightarrow>
     (let dailyAmount = getTokenTransactionAmount address tokenAddress network oneDay in
     (case exceeds_cap bi (maxAmountPerDay rule tokenAddress) (dailyAmount + txAmount) of
        Inl e \<Rightarrow> Inl e
      | Inr True \<Rightarrow> Inr (reject ''Token daily limit would be exceeded'')
      | Inr False \<Rightarrow> Inr allow))))))"

definition checkTokenLimits ::
  "bigint_fn \<Rightarrow> PolicyEngine \<Rightarrow> MetaTransactionRequest \<Rightarrow> PolicyResult result" where
  "checkTokenLimits bi pe request =
     (case (req_tokenAddress request, req_amount request) of
        (Some ta, Some am) \<Rightarrow>
          if ta = [] \<or> am = [] then Inr allow
          else
            (let tokenAddress = toLowerCase ta in
             case tokenLimitRules pe ''*'' of
               None \<Rightarrow> Inr allow
             | Some globalRule \<Rightarrow>
                 if allowedTokens globalRule \<noteq> []
                    \<and> \<not> list_ex (\<lambda>addr. toLowerCase addr = tokenAddress) (allowedTokens globalRule)
                 then Inr (reject ''Token not in allowed list'')
                 else
                   (case checkTokenAmountLimits bi (req_from request) tokenAddress am
                           (req_network request) globalRule of
                      Inl e \<Rightarrow> Inl e
                    | Inr tokenLimitResult \<Rightarrow>
                        if \<not> allowed tokenLimitResult then Inr tokenLimitResult else Inr allow))
      | _ \<Rightarrow> Inr allow)"

section \<open>\<^verbatim>\<open>PolicyEngine.checkPolicies\<close>\<close>

text \<open>The body of the \<^verbatim>\<open>try\<close> block: the four checks, each returning at its rejection.\<close>

definition checkPolicies_try ::
  "bigint_fn \<Rightarrow> PolicyEngine \<Rightarrow> RedisClient \<Rightarrow> int \<Rightarrow> MetaTransactionRequest
     \<Rightarrow> PolicyResult result \<times> RedisClient" where
  "checkPolicies_try bi pe r now request =
     (let allowlistResult = checkAllowlist pe request in
      if \<not> allowed allowlistResult then (Inr allowlistResult, r)
      else
        (case checkQuotas bi pe r now request of
           (Inl e, r1) \<Rightarrow> (Inl e, r1)
         | (Inr quotaResult, r1) \<Rightarrow>
             if \<not> allowed quotaResult then (Inr quotaResult, r1)
             else
               (case checkGasLimits bi pe request of
                  Inl e \<Rightarrow> (Inl e, r1)
                | Inr gasLimitResult \<Rightarrow>
                    if \<not> allowed gasLimitResult then (Inr gasLimitResult, r1)
                    else
                      (case checkTokenLimits bi pe request of
                         Inl e \<Rightarrow> (Inl e, r1)
                       | Inr tokenLimitResult \<Rightarrow>
                           if \<not> allowed tokenLimitResult then (Inr tokenLimitResult, r1)
                           else (Inr allow, r1)))))"

text \<open>
  \<^verbatim>\<open>checkPolicies\<close>: the initialisation guard throws outside the \<^verbatim>\<open>try\<close>; whatever the
  block throws is caught, logged and answered with the rejection "Policy check failed".
\<close>

definition checkPolicies ::
  "bigint_fn \<Rightarrow> PolicyEngine \<Rightarrow> RedisClient \<Rightarrow> int \<Rightarrow> MetaTransactionRequest
     \<Rightarrow> PolicyResult result \<times> RedisClient" where
  "checkPolicies bi pe r now request =
     (if \<not> isInitialized pe then (Inl ''PolicyEngine not initialized'', r)
      else
        (case checkPolicies_try bi pe r now request of
           (Inl e, r1) \<Rightarrow> (Inr (reject ''Policy check failed''), r1)
         | (Inr res, r1) \<Rightarrow> (Inr res, r1)))"

section \<open>\<^verbatim>\<open>DatabaseService\<close>: the transactions table (services/database.ts)\<close>

text \<open>The status of a record as \<^verbatim>\<open>TransactionRecord\<close> types it: three values.\<close>

datatype tx_status = pending | confirmed | failed

text \<open>
  A row of \<^verbatim>\<open>transactions\<close>. A nullable column is an option; timestamps are
  milliseconds. \<open>row_id\<close> is the column \<^verbatim>\<open>id\<close>.
\<close>

record TransactionRecord =
  row_id :: "int option"
  tx_hash :: string
  from_address :: string
  to_address :: string
  network :: string
  status :: tx_status
  gas_used :: "string option"
  gas_price :: "string option"
  block_number :: "int option"
  created_at :: "int option"
  updated_at :: "int option"
  meta_tx_hash :: "string option"
  relayer_address :: "string option"
  token_address :: "string option"
  token_type :: "token_type option"
  amount :: "string option"
  token_id :: "string option"

text \<open>\<^verbatim>\<open>Partial<TransactionRecord>\<close>: the keys present in an update object.\<close>

record TransactionUpdates =
  upd_row_id :: "int option"
  upd_tx_hash :: "string option"
  upd_from_address :: "string option"
  upd_to_address :: "string option"
  upd_network :: "string option"
  upd_status :: "tx_status option"
  upd_gas_used :: "string option"
  upd_gas_price :: "string option"
  upd_block_number :: "int option"
  upd_created_at :: "int option"
  upd_updated_at :: "int option"
  upd_meta_tx_hash :: "string option"
  upd_relayer_address :: "string option"
  upd_token_address :: "string option"
  upd_token_type :: "token_type option"
  upd_amount :: "string option"
  upd_token_id :: "string option"

text \<open>
  The database: the rows of \<^verbatim>\<open>transactions\<close>, the next value of the \<^verbatim>\<open>SERIAL\<close>
  column, and \<open>db_failure\<close>, \<open>Some msg\<close> when the pool or a query throws \<open>msg\<close>.
\<close>

record Database =
  db_failure :: "string option"
  transactions :: "TransactionRecord list"
  next_id :: int

text \<open>The \<^verbatim>\<open>VARCHAR(n)\<close> and \<^verbatim>\<open>INTEGER\<close> bounds of the schema.\<close>

definition fits :: "nat \<Rightarrow> string option \<Rightarrow> bool" where
  "fits n v = (case v of None \<Rightarrow> True | Some s \<Rightarrow> length s \<le> n)"

definition fits_integer :: "int option \<Rightarrow> bool" where
  "fits_integer v = (case v of None \<Rightarrow> True | Some i \<Rightarrow> - 2147483648 \<le> i \<and> i \<le> 2147483647)"

definition insert_fits :: "TransactionRecord \<Rightarrow> bool" where
  "insert_fits t \<longleftrightarrow>
     length (tx_hash t) \<le> 66 \<and> length (from_address t) \<le> 42 \<and> length (to_address t) \<le> 42
     \<and> length (network t) \<le> 20 \<and> fits 20 (gas_used t) \<and> fits 30 (gas_price t)
     \<and> fits_integer (block_number t) \<and> fits 66 (meta_tx_hash t) \<and> fits 42 (relayer_address t)
     \<and> fits 42 (token_address t) \<and> fits 78 (amount t) \<and> fits 78 (token_id t)"

text \<open>
  \<^verbatim>\<open>saveTransaction\<close>: one \<^verbatim>\<open>INSERT ... RETURNING *\<close>. The statement lists fourteen
  columns; \<^verbatim>\<open>id\<close>, \<^verbatim>\<open>created_at\<close> and \<^verbatim>\<open>updated_at\<close> take their defaults.
  \<^verbatim>\<open>tx_hash\<close> is \<^verbatim>\<open>UNIQUE\<close>, so a second row with a stored hash is refused.
\<close>

definition saveTransaction ::
  "Database \<Rightarrow> int \<Rightarrow> TransactionRecord \<Rightarrow> TransactionRecord result \<times> Database" where
  "saveTransaction d now t =
     (case db_failure d of
        Some e \<Rightarrow> (Inl e, d)
      | None \<Rightarrow>
          if \<not> insert_fits t then (Inl ''value too long for type character varying'', d)
          else if list_ex (\<lambda>row. tx_hash row = tx_hash t) (transactions d)
          then (Inl ''duplicate key value violates unique constraint'', d)
          else
            (let row = t\<lparr>row_id := Some (next_id d), created_at := Some now,
                         updated_at := Some now\<rparr>
             in (Inr row, d\<lparr>transactions := transactions d @ [row], next_id := next_id d + 1\<rparr>)))"

text \<open>\<^verbatim>\<open>Object.keys(updates)\<close> is empty: the \<^verbatim>\<open>SET\<close> clause is empty and the query is refused.\<close>

definition no_keys :: "TransactionUpdates \<Rightarrow> bool" where
  "no_keys u \<longleftrightarrow>
     upd_row_id u = None \<and> upd_tx_hash u = None \<and> upd_from_address u = None
     \<and> upd_to_address u = None \<and> upd_network u = None \<and> upd_status u = None
     \<and> upd_gas_used u = None \<and> upd_gas_price u = None \<and> upd_block_number u = None
     \<and> upd_created_at u = None \<and> upd_updated_at u = None \<and> upd_meta_tx_hash u = None
     \<and> upd_relayer_address u = None \<and> upd_token_address u = None \<and> upd_token_type u = None
     \<and> upd_amount u = None \<and> upd_token_id u = None"

definition update_fits :: "TransactionUpdates \<Rightarrow> bool" where
  "update_fits u \<longleftrightarrow>
     fits_integer (upd_row_id u) \<and> fits 66 (upd_tx_hash u) \<and> fits 42 (upd_from_address u)
     \<and> fits 42 (upd_to_address u) \<and> fits 20 (upd_network u) \<and> fits 20 (upd_gas_used u)
     \<and> fits 30 (upd_gas_price u) \<and> fits_integer (upd_block_number u)
     \<and> fits 66 (upd_meta_tx_hash u) \<and> fits 42 (upd_relayer_address u)
     \<and> fits 42 (upd_token_address u) \<and> fits 78 (upd_amount u) \<and> fits 78 (upd_token_id u)"

definition upd :: "'a option \<Rightarrow> 'a \<Rightarrow> 'a" where
  "upd v old = (case v of None \<Rightarrow> old | Some new \<Rightarrow> new)"

definition upd_opt :: "'a option \<Rightarrow> 'a option \<Rightarrow> 'a option" where
  "upd_opt v old = (case v of None \<Rightarrow> old | Some new \<Rightarrow> Some new)"

text \<open>
  The row after \<^verbatim>\<open>SET key = value, ...\<close>; the trigger
  \<^verbatim>\<open>update_transactions_updated_at\<close> then overwrites \<^verbatim>\<open>updated_at\<close>.
\<close>

definition apply_updates :: "int \<Rightarrow> TransactionUpdates \<Rightarrow> TransactionRecord \<Rightarrow> TransactionRecord" where
  "apply_updates now u row =
     \<lparr>row_id = upd_opt (upd_row_id u) (row_id row),
      tx_hash = upd (upd_tx_hash u) (tx_hash row),
      from_address = upd (upd_from_address u) (from_address row),
      to_address = upd (upd_to_address u) (to_address row),
      network = upd (upd_network u) (network row),
      status = upd (upd_status u) (status row),
      gas_used = upd_opt (upd_gas_used u) (gas_used row),
      gas_price = upd_opt (upd_gas_price u) (gas_price row),
      block_number = upd_opt (upd_block_number u) (block_number row),
      created_at = upd_opt (upd_created_at u) (created_at row),
      updated_at = Some now,
      meta_tx_hash = upd_opt (upd_meta_tx_hash u) (meta_tx_hash row),
      relayer_address = upd_opt (upd_relayer_address u) (relayer_address row),
      token_address = upd_opt (upd_token_address u) (token_address row),
      token_type = upd_opt (upd_token_type u) (token_type row),
      amount = upd_opt (upd_amount u) (amount row),
      token_id = upd_opt (upd_token_id u) (token_id row)\<rparr>"

text \<open>The new row would repeat the \<^verbatim>\<open>id\<close> or the \<^verbatim>\<open>tx_hash\<close> of another row.\<close>

definition key_clash :: "TransactionRecord list \<Rightarrow> string \<Rightarrow> TransactionRecord \<Rightarrow> bool" where
  "key_clash rows txHash new =
     list_ex (\<lambda>other. tx_hash other \<noteq> txHash
                \<and> (tx_hash other = tx_hash new \<or> row_id other = row_id new)) rows"

text \<open>
  \<^verbatim>\<open>updateTransaction\<close>: \<^verbatim>\<open>UPDATE transactions SET ... WHERE tx_hash = $1 RETURNING *\<close>.
  The only condition on the row is its hash. The result is the updated row, or \<^verbatim>\<open>null\<close>
  when no row has that hash.
\<close>

definition updateTransaction ::
  "Database \<Rightarrow> int \<Rightarrow> string \<Rightarrow> TransactionUpdates
     \<Rightarrow> TransactionRecord option result \<times> Database" where
  "updateTransaction d now txHash u =
     (case db_failure d of
        Some e \<Rightarrow> (Inl e, d)
      | None \<Rightarrow>
          if no_keys u then (Inl ''syntax error at or near WHERE'', d)
          else
            (case find (\<lambda>row. tx_hash row = txHash) (transactions d) of
               None \<Rightarrow> (Inr None, d)
             | Some row \<Rightarrow>
                 (let new = apply_updates now u row in
                  if \<not> update_fits u then (Inl ''value too long for type character varying'', d)
                  else if key_clash (transactions d) txHash new
                  then (Inl ''duplicate key value violates unique constraint'', d)
                  else (Inr (Some new),
                        d\<lparr>transactions :=
                            map (\<lambda>row. if tx_hash row = txHash then new else row)
                              (transactions d)\<rparr>))))"

definition getTransaction :: "Database \<Rightarrow> string \<Rightarrow> TransactionRecord option result" where
  "getTransaction d txHash =
     (case db_failure d of
        Some e \<Rightarrow> Inl e
      | None \<Rightarrow> Inr (find (\<lambda>row. tx_hash row = txHash) (transactions d)))"

section \<open>Configuration, chain client and signer (config/config.ts, ethers)\<close>

record NetworkConfig =
  chainId :: int
  forwarder :: string

text \<open>
  The fields of \<^verbatim>\<open>config\<close> that the relay path reads. \<open>cfg_gasMultiplier100\<close> is
  \<^verbatim>\<open>Math.floor(config.relayer.gasMultiplier * 100)\<close>, \<open>None\<close> when that number is not
  finite (\<^verbatim>\<open>BigInt\<close> of it throws).
\<close>

record Config =
  cfg_keyPrefix :: string
  cfg_networks :: "string \<rightharpoonup> NetworkConfig"
  cfg_maxGasPrice :: string
  cfg_maxGasLimit :: string
  cfg_maxValuePerTransaction :: string
  cfg_gasMultiplier100 :: "int option"
  cfg_flashbotsEnabled :: bool

record TypedDataDomain =
  dom_name :: string
  dom_version :: string
  dom_chainId :: int
  dom_verifyingContract :: string

record ForwardRequest =
  fr_from :: string
  fr_to :: string
  fr_value :: string
  fr_gas :: string
  fr_nonce :: string
  fr_data :: string

text \<open>
  The functions of the runtime and of ethers: \<^verbatim>\<open>BigInt\<close>, \<^verbatim>\<open>ethers.isAddress\<close> and
  \<^verbatim>\<open>ethers.verifyTypedData(domain, types, value, signature)\<close>, which hashes the typed
  data, recovers the signing address from the signature, and throws on a malformed one.
\<close>

record Platform =
  BigInt :: bigint_fn
  isAddress :: "string \<Rightarrow> bool"
  verifyTypedData ::
    "TypedDataDomain \<Rightarrow> (string \<times> (string \<times> string) list) list \<Rightarrow> ForwardRequest \<Rightarrow> string
       \<Rightarrow> string result"

record CallRequest =
  call_to :: string
  call_from :: string
  call_value :: string
  call_data :: string

text \<open>The outcomes of the \<^verbatim>\<open>ethers.Provider\<close> calls of one network during one run.\<close>

record Provider =
  prov_call :: "CallRequest \<Rightarrow> string result"
  prov_getFeeData :: "int option result"
  prov_estimateGas :: "CallRequest \<Rightarrow> int result"
  prov_getTransactionCount :: "string \<Rightarrow> int result"
  prov_broadcastTransaction :: "string \<Rightarrow> string result"
  prov_wait :: "string \<Rightarrow> int option result"

record TransactionRequest =
  tx_to :: string
  tx_value :: string
  tx_data :: string
  tx_gasLimit :: int
  tx_gasPrice :: int
  tx_nonce :: int

record Signer =
  sgn_getAddress :: "string result"
  sgn_signTransaction :: "TransactionRequest \<Rightarrow> string result"

text \<open>\<^verbatim>\<open>BigInt.prototype.toString()\<close>: decimal digits, with a sign when negative.\<close>

definition digit_char :: "int \<Rightarrow> char" where
  "digit_char d = ''0123456789'' ! nat d"

function int_digits :: "int \<Rightarrow> string" where
  "int_digits n =
     (if n < 10 then [digit_char n]
      else int_digits (n div 10) @ [digit_char (n mod 10)])"
  by pat_completeness auto
termination
  by (relation "measure nat") auto

definition int_toString :: "int \<Rightarrow> string" where
  "int_toString i = (if i < 0 then CHR ''-'' # int_digits (- i) else int_digits i)"

section \<open>\<^verbatim>\<open>RelayerService\<close>: the steps of the relay path (services/relayer.ts)\<close>

record RelayResult =
  success :: bool
  txHash :: "string option"
  error :: "string option"
  gasUsed :: "string option"
  gasPrice :: "string option"

text \<open>
  The service: a provider and a signer per network, the policy engine, and
  \<^verbatim>\<open>FlashbotsService.sendBundle\<close> as the private-orderflow transport, given by the
  transaction hash it answers with (or the error it throws).
\<close>

record RelayerService =
  rs_providers :: "string \<rightharpoonup> Provider"
  rs_signers :: "string \<rightharpoonup> Signer"
  rs_policyEngine :: PolicyEngine
  rs_sendBundle :: "TransactionRequest \<Rightarrow> string result"
  rs_isInitialized :: bool

definition validateRequest ::
  "Platform \<Rightarrow> Config \<Rightarrow> RelayerService \<Rightarrow> MetaTransactionRequest \<Rightarrow> unit result" where
  "validateRequest pf cfg rs request =
     (if \<not> isAddress pf (req_from request) then Inl ''Invalid from address''
      else if \<not> isAddress pf (req_to request) then Inl ''Invalid to address''
      else if req_signature request = [] then Inl ''Signature is required''
      else if rs_providers rs (req_network request) = None
      then Inl (''Unsupported network: '' @ req_network request)
      else
        (case BigInt pf (req_gas request) of Inl e \<Rightarrow> Inl e | Inr gasLimit \<Rightarrow>
        (case BigInt pf (cfg_maxGasLimit cfg) of Inl e \<Rightarrow> Inl e | Inr maxGasLimit' \<Rightarrow>
         if gasLimit > maxGasLimit'
         then Inl (''Gas limit too high: '' @ int_toString gasLimit @ '' > ''
                     @ int_toString maxGasLimit')
         else
        (case BigInt pf (req_value request) of Inl e \<Rightarrow> Inl e | Inr value' \<Rightarrow>
        (case BigInt pf (cfg_maxValuePerTransaction cfg) of Inl e \<Rightarrow> Inl e | Inr maxValue \<Rightarrow>
         if value' > maxValue
         then Inl (''Transaction value too high: '' @ int_toString value' @ '' > ''
                     @ int_toString maxValue)
         else Inr ())))))"

text \<open>The EIP-712 domain, type table and value that the verifier builds.\<close>

definition forwarder_domain :: "NetworkConfig \<Rightarrow> TypedDataDomain" where
  "forwarder_domain networkConfig =
     \<lparr>dom_name = ''MinimalForwarder'', dom_version = ''0.0.1'',
      dom_chainId = chainId networkConfig, dom_verifyingContract = forwarder networkConfig\<rparr>"

definition forward_types :: "(string \<times> (string \<times> string) list) list" where
  "forward_types =
     [(''ForwardRequest'',
       [(''from'', ''address''), (''to'', ''address''), (''value'', ''uint256''),
        (''gas'', ''uint256''), (''nonce'', ''uint256''), (''data'', ''bytes'')])]"

definition forward_value :: "MetaTransactionRequest \<Rightarrow> ForwardRequest" where
  "forward_value request =
     \<lparr>fr_from = req_from request, fr_to = req_to request, fr_value = req_value request,
      fr_gas = req_gas request, fr_nonce = req_nonce request, fr_data = req_data request\<rparr>"

text \<open>The \<^verbatim>\<open>try\<close> block of \<^verbatim>\<open>verifyMetaTransactionSignature\<close>.\<close>

definition verifySignature_try :: "Platform \<Rightarrow> Config \<Rightarrow> MetaTransactionRequest \<Rightarrow> unit result" where
  "verifySignature_try pf cfg request =
     (case cfg_networks cfg (req_network request) of
        None \<Rightarrow> Inl (''Network configuration not found: '' @ req_network request)
      | Some networkConfig \<Rightarrow>
          (case verifyTypedData pf (forwarder_domain networkConfig) forward_types
                  (forward_value request) (req_signature request) of
             Inl e \<Rightarrow> Inl e
           | Inr recoveredAddress \<Rightarrow>
               if toLowerCase recoveredAddress \<noteq> toLowerCase (req_from request)
               then Inl ''Invalid signature''
               else Inr ()))"

text \<open>Whatever the block throws is logged and replaced by one error.\<close>

definition verifyMetaTransactionSignature ::
  "Platform \<Rightarrow> Config \<Rightarrow> MetaTransactionRequest \<Rightarrow> unit result" where
  "verifyMetaTransactionSignature pf cfg request =
     (case verifySignature_try pf cfg request of
        Inl e \<Rightarrow> Inl ''Invalid meta-transaction signature''
      | Inr u \<Rightarrow> Inr ())"

definition call_of :: "MetaTransactionRequest \<Rightarrow> CallRequest" where
  "call_of request =
     \<lparr>call_to = req_to request, call_from = req_from request,
      call_value = req_value request, call_data = req_data request\<rparr>"

definition simulateTransaction :: "MetaTransactionRequest \<Rightarrow> Provider \<Rightarrow> unit result" where
  "simulateTransaction request provider =
     (case prov_call provider (call_of request) of
        Inl e \<Rightarrow> Inl ''Transaction simulation failed - transaction would revert''
      | Inr res \<Rightarrow> Inr ())"

text \<open>
  \<^verbatim>\<open>getOptimalGasPrice\<close>: the suggested gas price (0 when it is \<^verbatim>\<open>null\<close>), times the
  multiplier in hundredths, divided by 100 as \<^verbatim>\<open>BigInt\<close> division does (towards zero),
  then capped at the configured maximum. Any throw inside gives the default of 20 gwei.
\<close>

definition getOptimalGasPrice :: "Platform \<Rightarrow> Config \<Rightarrow> Provider \<Rightarrow> int" where
  "getOptimalGasPrice pf cfg provider =
     (case prov_getFeeData provider of
        Inl e \<Rightarrow> 20000000000
      | Inr feeGasPrice \<Rightarrow>
          (let gasPrice0 = (case feeGasPrice of None \<Rightarrow> 0 | Some g \<Rightarrow> g) in
           case cfg_gasMultiplier100 cfg of
             None \<Rightarrow> 20000000000
           | Some m \<Rightarrow>
               (let gasPrice1 = (gasPrice0 * m) sdiv 100 in
                case BigInt pf (cfg_maxGasPrice cfg) of
                  Inl e \<Rightarrow> 20000000000
                | Inr maxGasPrice' \<Rightarrow>
                    if gasPrice1 > maxGasPrice' then maxGasPrice' else gasPrice1)))"

text \<open>
  \<^verbatim>\<open>estimateGas\<close>: the provider's estimate plus 20 percent; when the estimate throws,
  the gas the request declares.
\<close>

definition estimateGas :: "Platform \<Rightarrow> MetaTransactionRequest \<Rightarrow> Provider \<Rightarrow> int result" where
  "estimateGas pf request provider =
     (case prov_estimateGas provider (call_of request) of
        Inr gasEstimate \<Rightarrow> Inr ((gasEstimate * 120) sdiv 100)
      | Inl e \<Rightarrow> BigInt pf (req_gas request))"

section \<open>\<^verbatim>\<open>RelayerService.relayTransaction\<close>\<close>

text \<open>
  What one run does to the outside: the calls it issues to the signer, the chain, the
  private transport and the store, in the order issued, together with the Redis and
  database state it leaves.
\<close>

datatype event =
    CallSignTransaction TransactionRequest
  | CallBroadcast string
  | CallSendBundle TransactionRequest
  | CallSaveTransaction TransactionRecord
  | CallTrackPending string

record World =
  redis :: RedisClient
  db :: Database
  events :: "event list"

definition emit :: "event \<Rightarrow> World \<Rightarrow> World" where
  "emit e w = w\<lparr>events := events w @ [e]\<rparr>"

text \<open>
  Sign and send (lines 126 to 143): through Flashbots on \<^verbatim>\<open>ethereum\<close> when enabled,
  otherwise sign, broadcast and wait for the receipt. The result is the transaction hash
  and the receipt's gas used.
\<close>

definition relay_submit ::
  "Config \<Rightarrow> RelayerService \<Rightarrow> Provider \<Rightarrow> Signer \<Rightarrow> MetaTransactionRequest
     \<Rightarrow> TransactionRequest \<Rightarrow> World \<Rightarrow> (string \<times> string option) result \<times> World" where
  "relay_submit cfg rs provider signer request transaction w =
     (if cfg_flashbotsEnabled cfg \<and> req_network request = ''ethereum''
      then
        (let w1 = emit (CallSendBundle transaction) w in
         case rs_sendBundle rs transaction of
           Inl e \<Rightarrow> (Inl e, w1)
         | Inr h \<Rightarrow> (Inr (h, None), w1))
      else
        (let w1 = emit (CallSignTransaction transaction) w in
         case sgn_signTransaction signer transaction of
           Inl e \<Rightarrow> (Inl e, w1)
         | Inr signedTx \<Rightarrow>
             (let w2 = emit (CallBroadcast signedTx) w1 in
              case prov_broadcastTransaction provider signedTx of
                Inl e \<Rightarrow> (Inl e, w2)
              | Inr h \<Rightarrow>
                  (case prov_wait provider h of
                     Inl e \<Rightarrow> (Inl e, w2)
                   | Inr receiptGasUsed \<Rightarrow>
                       (Inr (h, map_option int_toString receiptGasUsed), w2)))))"

text \<open>
  Save and track (lines 145 to 186): build the \<^verbatim>\<open>pending\<close> record, insert it, store
  the pending entry in Redis, and return the success result. The metric and log calls
  in between change none of the state modelled here.
\<close>

definition pending_record ::
  "MetaTransactionRequest \<Rightarrow> string \<Rightarrow> int \<Rightarrow> string \<Rightarrow> TransactionRecord" where
  "pending_record request h gasPrice' relayer =
     \<lparr>row_id = None, tx_hash = h, from_address = req_from request,
      to_address = req_to request, network = req_network request, status = pending,
      gas_used = None, gas_price = Some (int_toString gasPrice'), block_number = None,
      created_at = None, updated_at = None, meta_tx_hash = None,
      relayer_address = Some relayer, token_address = req_tokenAddress request,
      token_type = req_tokenType request, amount = req_amount request,
      token_id = req_tokenId request\<rparr>"

definition relay_record ::
  "Config \<Rightarrow> Signer \<Rightarrow> int \<Rightarrow> MetaTransactionRequest \<Rightarrow> string \<Rightarrow> string option \<Rightarrow> int
     \<Rightarrow> World \<Rightarrow> RelayResult result \<times> World" where
  "relay_record cfg signer now request h gasUsed' gasPrice' w =
     (case sgn_getAddress signer of
        Inl e \<Rightarrow> (Inl e, w)
      | Inr relayer \<Rightarrow>
          (let transactionRecord = pending_record request h gasPrice' relayer;
               w1 = emit (CallSaveTransaction transactionRecord) w in
           case saveTransaction (db w1) now transactionRecord of
             (Inl e, d) \<Rightarrow> (Inl e, w1\<lparr>db := d\<rparr>)
           | (Inr row, d) \<Rightarrow>
               (let w2 = emit (CallTrackPending h) (w1\<lparr>db := d\<rparr>) in
                case RedisService_trackPendingTransaction (cfg_keyPrefix cfg) (redis w2) h
                       (request, now) of
                  (Inl e, r) \<Rightarrow> (Inl e, w2\<lparr>redis := r\<rparr>)
                | (Inr u, r) \<Rightarrow>
                    (Inr \<lparr>success = True, txHash = Some h, error = None, gasUsed = gasUsed',
                          gasPrice = Some (int_toString gasPrice')\<rparr>,
                     w2\<lparr>redis := r\<rparr>))))"

text \<open>
  From the gas price to the end (lines 112 to 186), for the provider and signer of the
  request's network: gas price, gas limit, nonce, then submission and recording.
\<close>

definition relay_dispatch ::
  "Platform \<Rightarrow> Config \<Rightarrow> RelayerService \<Rightarrow> Provider \<Rightarrow> Signer \<Rightarrow> int
     \<Rightarrow> MetaTransactionRequest \<Rightarrow> World \<Rightarrow> RelayResult result \<times> World" where
  "relay_dispatch pf cfg rs provider signer now request w =
     (let gasPrice' = getOptimalGasPrice pf cfg provider in
      case estimateGas pf request provider of
        Inl e \<Rightarrow> (Inl e, w)
      | Inr gasLimit \<Rightarrow>
          (case RelayerService_getNextNonce (cfg_keyPrefix cfg) (sgn_getAddress signer)
                  (prov_getTransactionCount provider) (redis w) (req_network request) of
             (Inl e, r) \<Rightarrow> (Inl e, w\<lparr>redis := r\<rparr>)
           | (Inr nonce, r) \<Rightarrow>
               (let transaction =
                      \<lparr>tx_to = req_to request, tx_value = req_value request,
                       tx_data = req_data request, tx_gasLimit = gasLimit,
                       tx_gasPrice = gasPrice', tx_nonce = nonce\<rparr> in
                case relay_submit cfg rs provider signer request transaction (w\<lparr>redis := r\<rparr>) of
                  (Inl e, w1) \<Rightarrow> (Inl e, w1)
                | (Inr (h, gasUsed'), w1) \<Rightarrow>
                    relay_record cfg signer now request h gasUsed' gasPrice' w1)))"

text \<open>The \<^verbatim>\<open>try\<close> block of \<^verbatim>\<open>relayTransaction\<close> (lines 88 to 186).\<close>

definition relayTransaction_try ::
  "Platform \<Rightarrow> Config \<Rightarrow> RelayerService \<Rightarrow> int \<Rightarrow> MetaTransactionRequest \<Rightarrow> World
     \<Rightarrow> RelayResult result \<times> World" where
  "relayTransaction_try pf cfg rs now request w =
     (case validateRequest pf cfg rs request of
        Inl e \<Rightarrow> (Inl e, w)
      | Inr u \<Rightarrow>
     (case checkPolicies (BigInt pf) (rs_policyEngine rs) (redis w) now request of
        (Inl e, r) \<Rightarrow> (Inl e, w\<lparr>redis := r\<rparr>)
      | (Inr policyResult, r) \<Rightarrow>
          if \<not> allowed policyResult
          then (Inl (''Policy violation: ''
                       @ (case reason policyResult of None \<Rightarrow> ''undefined'' | Some m \<Rightarrow> m)),
                w\<lparr>redis := r\<rparr>)
          else
     (case (rs_providers rs (req_network request), rs_signers rs (req_network request)) of
        (Some provider, Some signer) \<Rightarrow>
          (case verifyMetaTransactionSignature pf cfg request of
             Inl e \<Rightarrow> (Inl e, w\<lparr>redis := r\<rparr>)
           | Inr u1 \<Rightarrow>
          (case simulateTransaction request provider of
             Inl e \<Rightarrow> (Inl e, w\<lparr>redis := r\<rparr>)
           | Inr u2 \<Rightarrow> relay_dispatch pf cfg rs provider signer now request (w\<lparr>redis := r\<rparr>)))
      | _ \<Rightarrow> (Inl (''Unsupported network: '' @ req_network request), w\<lparr>redis := r\<rparr>))))"

text \<open>
  \<^verbatim>\<open>relayTransaction\<close>: the initialisation guard throws; any error of the block is
  caught and returned as \<^verbatim>\<open>{success: false, error: message}\<close>.
\<close>

definition relayTransaction ::
  "Platform \<Rightarrow> Config \<Rightarrow> RelayerService \<Rightarrow> int \<Rightarrow> MetaTransactionRequest \<Rightarrow> World
     \<Rightarrow> RelayResult result \<times> World" where
  "relayTransaction pf cfg rs now request w =
     (if \<not> rs_isInitialized rs then (Inl ''RelayerService not initialized'', w)
      else
        (case relayTransaction_try pf cfg rs now request w of
           (Inl e, w1) \<Rightarrow>
             (Inr \<lparr>success = False, txHash = None, error = Some e, gasUsed = None,
                   gasPrice = None\<rparr>, w1)
         | (Inr res, w1) \<Rightarrow> (Inr res, w1)))"

section \<open>The order of the rule kinds, stated on its own\<close>




definition starts_with :: "string \<Rightarrow> string \<Rightarrow> bool" where
  "starts_with p s = (take (length p) s = p)"

section \<open>The limits of the rules and what violates them\<close>

text \<open>
  The limits that the rules of the four kinds set, in the order in which the engine
  compares them, and for each the reason text that the source writes when it rejects on
  that limit (\<open>net\<close> is the request's network).
\<close>

datatype limit =
    GlobalAllowlist | NetworkAllowlist
  | MaxTransactionsPerHour | MaxTransactionsPerDay
  | MaxValuePerTransaction | MaxValuePerHour | MaxValuePerDay
  | GlobalMaxGasLimit | NetworkMaxGasLimit
  | AllowedTokens | MaxAmountPerTransaction | MaxAmountPerHour | MaxAmountPerDay



fun reason_of :: "string \<Rightarrow> limit \<Rightarrow> string" where
  "reason_of net GlobalAllowlist = ''Address not in global allowlist''"
| "reason_of net NetworkAllowlist = ''Address not in '' @ net @ '' allowlist''"
| "reason_of net MaxTransactionsPerHour = ''Hourly transaction limit exceeded''"
| "reason_of net MaxTransactionsPerDay = ''Daily transaction limit exceeded''"
| "reason_of net MaxValuePerTransaction = ''Transaction value exceeds limit''"
| "reason_of net MaxValuePerHour = ''Hourly value limit would be exceeded''"
| "reason_of net MaxValuePerDay = ''Daily value limit would be exceeded''"
| "reason_of net GlobalMaxGasLimit = ''Gas limit exceeds maximum allowed''"
| "reason_of net NetworkMaxGasLimit = ''Gas limit exceeds '' @ net @ '' maximum''"
| "reason_of net AllowedTokens = ''Token not in allowed list''"
| "reason_of net MaxAmountPerTransaction = ''Token amount exceeds per-transaction limit''"
| "reason_of net MaxAmountPerHour = ''Token hourly limit would be exceeded''"
| "reason_of net MaxAmountPerDay = ''Token daily limit would be exceeded''"


text \<open>
  \<open>above bi amount used cap\<close>: both texts convert, and the amount added to what is
  already used exceeds the cap.
\<close>

definition above :: "bigint_fn \<Rightarrow> string \<Rightarrow> int \<Rightarrow> string \<Rightarrow> bool" where
  "above bi amount' used cap =
     (case bi amount' of
        Inl e \<Rightarrow> False
      | Inr v \<Rightarrow> (case bi cap of Inl e \<Rightarrow> False | Inr mx \<Rightarrow> used + v > mx))"






subsection \<open>The counter of an address\<close>

text \<open>The number of entries of a counter that fall in a window, read without trimming.\<close>

definition entries_in_window :: "RedisClient \<Rightarrow> string \<Rightarrow> int \<Rightarrow> int \<Rightarrow> int" where
  "entries_in_window r key now window =
     int (length (filter (\<lambda>(m, s). s > now - window) (zsets r key)))"

section \<open>The order of submission and persistence in a run\<close>



text \<open>A broadcast or a bundle submission occurs in a list of calls.\<close>

fun is_submission :: "event \<Rightarrow> bool" where
  "is_submission (CallBroadcast s) = True"
| "is_submission (CallSendBundle t) = True"
| "is_submission e = False"

definition submitted :: "event list \<Rightarrow> bool" where
  "submitted es = list_ex is_submission es"


text \<open>
  A transaction is handed over for submission in a list of calls: to the signer, or to
  the bundle transport.
\<close>

definition handed_over :: "event list \<Rightarrow> TransactionRequest \<Rightarrow> bool" where
  "handed_over es t \<longleftrightarrow> CallSignTransaction t \<in> set es \<or> CallSendBundle t \<in> set es"

text \<open>
  The steps of a run before the gas price is computed all succeed (lines 82 to 110): the
  service is initialised, the request is valid, the policy engine admits it, the network
  has the given provider and signer, the signature verifies and the simulation returns.
\<close>

definition passes_checks ::
  "Platform \<Rightarrow> Config \<Rightarrow> RelayerService \<Rightarrow> int \<Rightarrow> MetaTransactionRequest \<Rightarrow> World
     \<Rightarrow> Provider \<Rightarrow> Signer \<Rightarrow> bool" where
  "passes_checks pf cfg rs now request w provider signer \<longleftrightarrow>
     rs_isInitialized rs
     \<and> validateRequest pf cfg rs request = Inr ()
     \<and> (case fst (checkPolicies (BigInt pf) (rs_policyEngine rs) (redis w) now request) of
           Inl e \<Rightarrow> False
         | Inr policyResult \<Rightarrow> allowed policyResult)
     \<and> rs_providers rs (req_network request) = Some provider
     \<and> rs_signers rs (req_network request) = Some signer
     \<and> verifyMetaTransactionSignature pf cfg request = Inr ()
     \<and> simulateTransaction request provider = Inr ()"

text \<open>
  The outcome of the nonce acquisition of a run that passes these steps: it acts on the
  Redis state that the policy check left.
\<close>

definition acquired_nonce ::
  "Platform \<Rightarrow> Config \<Rightarrow> RelayerService \<Rightarrow> int \<Rightarrow> MetaTransactionRequest \<Rightarrow> World
     \<Rightarrow> Provider \<Rightarrow> Signer \<Rightarrow> int result" where
  "acquired_nonce pf cfg rs now request w provider signer =
     fst (RelayerService_getNextNonce (cfg_keyPrefix cfg) (sgn_getAddress signer)
            (prov_getTransactionCount provider)
            (snd (checkPolicies (BigInt pf) (rs_policyEngine rs) (redis w) now request))
            (req_network request))"

section \<open>A local deployment, for worked examples\<close>

text \<open>
  A stand-in for the runtime: \<open>ex_BigInt\<close> reads decimal digits only (the empty
  string is 0, as in JavaScript) and throws on anything else; an address is a string
  that starts with \<^verbatim>\<open>0x\<close>; the signature \<^verbatim>\<open>sig:<address>\<close> recovers to that address.
\<close>

definition digit_value :: "char \<Rightarrow> int option" where
  "digit_value c = map_of (zip ''0123456789'' [0, 1, 2, 3, 4, 5, 6, 7, 8, 9]) c"

fun decimal_value :: "int \<Rightarrow> string \<Rightarrow> int option" where
  "decimal_value acc [] = Some acc"
| "decimal_value acc (c # cs) =
     (case digit_value c of None \<Rightarrow> None | Some d \<Rightarrow> decimal_value (10 * acc + d) cs)"

definition ex_BigInt :: bigint_fn where
  "ex_BigInt s =
     (case decimal_value 0 s of
        Some v \<Rightarrow> Inr v
      | None \<Rightarrow> Inl (''Cannot convert '' @ s @ '' to a BigInt''))"

definition ex_platform :: Platform where
  "ex_platform =
     \<lparr>BigInt = ex_BigInt,
      isAddress = starts_with ''0x'',
      verifyTypedData = (\<lambda>domain types v signature.
         if starts_with ''sig:'' signature then Inr (drop 4 signature)
         else Inl ''invalid signature'')\<rparr>"

definition ex_config :: Config where
  "ex_config =
     \<lparr>cfg_keyPrefix = ''relayer:'',
      cfg_networks = [''localhost'' \<mapsto> \<lparr>chainId = 31337, forwarder = ''0xF0''\<rparr>],
      cfg_maxGasPrice = ''100000000000'',
      cfg_maxGasLimit = ''500000'',
      cfg_maxValuePerTransaction = ''1000000000000000000'',
      cfg_gasMultiplier100 = Some 120,
      cfg_flashbotsEnabled = False\<rparr>"

definition ex_provider :: Provider where
  "ex_provider =
     \<lparr>prov_call = (\<lambda>c. Inr ''0x''),
      prov_getFeeData = Inr (Some 1000000000),
      prov_estimateGas = (\<lambda>c. Inr 21000),
      prov_getTransactionCount = (\<lambda>a. Inr 5),
      prov_broadcastTransaction = (\<lambda>signedTx. Inr (''0xhash:'' @ signedTx)),
      prov_wait = (\<lambda>h. Inr (Some 21000))\<rparr>"

definition ex_signer :: Signer where
  "ex_signer =
     \<lparr>sgn_getAddress = Inr ''0xRelayer'',
      sgn_signTransaction = (\<lambda>t. Inr (''signed:'' @ int_toString (tx_nonce t)))\<rparr>"

definition ex_quota :: QuotaRule where
  "ex_quota =
     \<lparr>maxTransactionsPerHour = 1, maxTransactionsPerDay = 1,
      maxValuePerTransaction = ''100'', maxValuePerHour = ''100'', maxValuePerDay = ''100''\<rparr>"

definition ex_engine :: PolicyEngine where
  "ex_engine =
     \<lparr>allowlistRules = [''*'' \<mapsto> \<lparr>addresses = [''0xA1'', ''0xB2'']\<rparr>],
      quotaRules = [''*'' \<mapsto> ex_quota],
      gasLimitRules = [''*'' \<mapsto> \<lparr>maxGasLimit = ''200000'', maxGasPrice = ''50000000000''\<rparr>],
      tokenLimitRules = Map.empty,
      isInitialized = True\<rparr>"

definition ex_service :: RelayerService where
  "ex_service =
     \<lparr>rs_providers = [''localhost'' \<mapsto> ex_provider],
      rs_signers = [''localhost'' \<mapsto> ex_signer],
      rs_policyEngine = ex_engine,
      rs_sendBundle = (\<lambda>t. Inl ''FlashbotsService not initialized''),
      rs_isInitialized = True\<rparr>"

definition ex_request :: MetaTransactionRequest where
  "ex_request =
     \<lparr>req_from = ''0xa1'', req_to = ''0xB2'', req_value = ''60'', req_gas = ''100000'',
      req_nonce = ''0'', req_data = ''0x'', req_signature = ''sig:0xA1'',
      req_network = ''localhost'', req_tokenAddress = None, req_tokenType = None,
      req_amount = None, req_tokenId = None\<rparr>"

definition ex_db :: Database where
  "ex_db = \<lparr>db_failure = None, transactions = [], next_id = 1\<rparr>"

definition ex_world :: World where
  "ex_world = \<lparr>redis = empty_redis, db = ex_db, events = []\<rparr>"

text \<open>The empty update object, and a stored record that has been confirmed.\<close>

definition no_updates :: TransactionUpdates where
  "no_updates =
     \<lparr>upd_row_id = None, upd_tx_hash = None, upd_from_address = None, upd_to_address = None,
      upd_network = None, upd_status = None, upd_gas_used = None, upd_gas_price = None,
      upd_block_number = None, upd_created_at = None, upd_updated_at = None,
      upd_meta_tx_hash = None, upd_relayer_address = None, upd_token_address = None,
      upd_token_type = None, upd_amount = None, upd_token_id = None\<rparr>"

definition ex_confirmed_db :: Database where
  "ex_confirmed_db =
     \<lparr>db_failure = None,
      transactions =
        [(pending_record ex_request ''0xh1'' 1200000000 ''0xRelayer'')
           \<lparr>row_id := Some 1, status := confirmed, gas_used := Some ''21000'',
            block_number := Some 7, created_at := Some 1000, updated_at := Some 1500\<rparr>],
      next_id = 2\<rparr>"

text \<open>The local deployment when the chain suggests a gas price of 200 gwei.\<close>

definition ex_service_fee200 :: RelayerService where
  "ex_service_fee200 =
     ex_service\<lparr>rs_providers :=
       [''localhost'' \<mapsto> ex_provider\<lparr>prov_getFeeData := Inr (Some 200000000000)\<rparr>]\<rparr>"

text \<open>The local deployment when the chain estimates 100000 gas for the call.\<close>

definition ex_service_gas100k :: RelayerService where
  "ex_service_gas100k =
     ex_service\<lparr>rs_providers :=
       [''localhost'' \<mapsto> ex_provider\<lparr>prov_estimateGas := (\<lambda>c. Inr 100000)\<rparr>]\<rparr>"

text \<open>The engine of the deployment with a quota rule whose hourly value cap is not a number.\<close>

definition ex_engine_malformed :: PolicyEngine where
  "ex_engine_malformed =
     ex_engine\<lparr>quotaRules := [''*'' \<mapsto> ex_quota\<lparr>maxValuePerHour := ''abc''\<rparr>]\<rparr>"

text \<open>
  A Redis whose counter for \<^verbatim>\<open>0xa1\<close> on \<^verbatim>\<open>localhost\<close> holds one entry, scored 900;
  \<open>ex_redis_down\<close> is the same server when every command throws.
\<close>

definition ex_redis_one :: RedisClient where
  "ex_redis_one =
     empty_redis\<lparr>zsets := (\<lambda>k. if k = txCountKey ''localhost'' ''0xa1''
                                 then [(''900-0.25'', 900)] else [])\<rparr>"

definition ex_redis_down :: RedisClient where
  "ex_redis_down = ex_redis_one\<lparr>redis_failure := Some ''ECONNREFUSED''\<rparr>"

text \<open>
  A quota of ten transactions an hour, two a day, and a value of 100 per transaction,
  hour and day; and a Redis whose counter holds two entries, two and three hours old at
  the time \<open>4 * oneHour\<close>.
\<close>

definition ex_quota_day :: QuotaRule where
  "ex_quota_day =
     \<lparr>maxTransactionsPerHour = 10, maxTransactionsPerDay = 2,
      maxValuePerTransaction = ''100'', maxValuePerHour = ''100'', maxValuePerDay = ''100''\<rparr>"

definition ex_engine_day :: PolicyEngine where
  "ex_engine_day = ex_engine\<lparr>quotaRules := [''*'' \<mapsto> ex_quota_day]\<rparr>"

definition ex_redis_day :: RedisClient where
  "ex_redis_day =
     empty_redis\<lparr>zsets := (\<lambda>k. if k = txCountKey ''localhost'' ''0xa1''
                                 then [(''a'', oneHour), (''b'', 2 * oneHour)] else [])\<rparr>"

text \<open>
  The deployment with the relayer's cursor at 7 and a database that refuses every query.
\<close>

definition ex_world_db_down :: World where
  "ex_world_db_down =
     \<lparr>redis = empty_redis\<lparr>strings := [nonceKey ''relayer:'' ''0xRelayer'' ''localhost'' \<mapsto> 7]\<rparr>,
      db = ex_db\<lparr>db_failure := Some ''connection refused''\<rparr>,
      events = []\<rparr>"

section \<open>Unfolding rules\<close>

lemmas redis_defs =
  client_get_def client_incr_def client_set_def client_expire_def client_zRemRangeByScore_def
  client_zCard_def client_setEx_def getKey_def nonceKey_def RedisService_getNextNonce_def
  RedisService_setNonce_def RedisService_getCurrentNonce_def
  RedisService_trackPendingTransaction_def

lemmas text_defs =
  toLowerCase_def lower_char_def int_toString_def digit_char_def starts_with_def

lemmas policy_defs =
  allow_def reject_def in_addresses_def checkAllowlist_def txCountKey_def
  getTransactionCount_def getTransactionValue_def getTokenTransactionAmount_def
  oneHour_def oneDay_def checkAddressQuota_def checkQuotas_def checkGasLimits_def
  exceeds_cap_def checkTokenAmountLimits_def checkTokenLimits_def checkPolicies_try_def
  checkPolicies_def truthy_def

lemmas store_defs =
  fits_def fits_integer_def insert_fits_def saveTransaction_def no_keys_def update_fits_def
  upd_def upd_opt_def apply_updates_def key_clash_def updateTransaction_def getTransaction_def

lemmas relay_defs =
  validateRequest_def forwarder_domain_def forward_types_def forward_value_def
  verifySignature_try_def verifyMetaTransactionSignature_def call_of_def
  simulateTransaction_def getOptimalGasPrice_def estimateGas_def
  RelayerService_getNextNonce_def emit_def relay_submit_def pending_record_def
  relay_record_def relay_dispatch_def relayTransaction_try_def relayTransaction_def

lemmas example_defs =
  digit_value_def ex_BigInt_def ex_platform_def ex_config_def ex_provider_def ex_signer_def
  ex_quota_def ex_engine_def ex_service_def ex_request_def ex_db_def ex_world_def
  empty_redis_def no_updates_def ex_confirmed_db_def ex_service_fee200_def
  ex_service_gas100k_def ex_engine_malformed_def ex_redis_one_def ex_redis_down_def
  ex_quota_day_def ex_engine_day_def ex_redis_day_def entries_in_window_def
  ex_world_db_down_def submitted_def

lemmas run_defs =
  relay_defs example_defs policy_defs redis_defs store_defs text_defs signed_divide_int_def
  Let_def

section \<open>The nonce allocator hands out a number twice\<close>

text \<open>
  With no cursor stored, the first acquisition stores the on-chain count \<open>c\<close> as the
  cursor and returns \<open>c\<close>; the second finds the cursor, increments it to \<open>c + 1\<close> and
  returns the value before the increment, \<open>c\<close> again.
\<close>

lemma first_two_acquisitions_equal:
  assumes "redis_failure r = None" and "strings r (nonceKey p a n) = None"
  shows "fst (acquire_all p a n [c, c'] r) = [Inr c, Inr c]"
  using assms
  by (simp add: RelayerService_getNextNonce_def RedisService_getCurrentNonce_def
      RedisService_getNextNonce_def RedisService_setNonce_def client_get_def client_incr_def
      client_set_def client_expire_def Let_def)

text \<open>
  Claim C1 (the numbers handed out for one relayer address and network are strictly
  increasing and no two acquisitions return the same number) fails on the code: starting
  from an empty Redis with an on-chain pending count of 5, the first two acquisitions
  both return 5.
\<close>

theorem nonce_reused_after_initialisation:
  "fst (acquire_all ''relayer:'' ''0xRelayer'' ''localhost'' [5, 5] empty_redis) = [Inr 5, Inr 5]"
  by (simp add: RelayerService_getNextNonce_def redis_defs empty_redis_def Let_def)

section \<open>Signature verification\<close>

text \<open>
  Claim C3: the verifier hands \<^verbatim>\<open>ethers.verifyTypedData\<close> the domain
  (name "MinimalForwarder", version "0.0.1", the network's chain id, the network's
  forwarder address), the \<^verbatim>\<open>ForwardRequest\<close> type over from, to, value, gas, nonce and
  data, the request's six fields and its signature; it accepts exactly when the network
  is configured, an address is recovered, and that address equals the request's
  \<^verbatim>\<open>from\<close> after lower-casing both. Every other outcome is the error
  "Invalid meta-transaction signature".
\<close>

theorem verify_signature_accepts_iff:
  "(verifyMetaTransactionSignature pf cfg request = Inr ()
      \<longleftrightarrow> (\<exists>networkConfig recovered.
             cfg_networks cfg (req_network request) = Some networkConfig
           \<and> verifyTypedData pf
                 \<lparr>dom_name = ''MinimalForwarder'', dom_version = ''0.0.1'',
                  dom_chainId = chainId networkConfig,
                  dom_verifyingContract = forwarder networkConfig\<rparr>
                 [(''ForwardRequest'',
                   [(''from'', ''address''), (''to'', ''address''), (''value'', ''uint256''),
                    (''gas'', ''uint256''), (''nonce'', ''uint256''), (''data'', ''bytes'')])]
                 \<lparr>fr_from = req_from request, fr_to = req_to request,
                  fr_value = req_value request, fr_gas = req_gas request,
                  fr_nonce = req_nonce request, fr_data = req_data request\<rparr>
                 (req_signature request) = Inr recovered
           \<and> toLowerCase recovered = toLowerCase (req_from request)))
   \<and> (verifyMetaTransactionSignature pf cfg request \<noteq> Inr ()
        \<longrightarrow> verifyMetaTransactionSignature pf cfg request
              = Inl ''Invalid meta-transaction signature'')"
  by (auto simp: verifyMetaTransactionSignature_def verifySignature_try_def
      forwarder_domain_def forward_types_def forward_value_def
      split: option.splits sum.splits if_splits)

theorem verify_signature_accepts_iff_witness:
  "verifyMetaTransactionSignature ex_platform ex_config ex_request = Inr ()
   \<and> verifyMetaTransactionSignature ex_platform ex_config
        (ex_request\<lparr>req_signature := ''sig:0xB2''\<rparr>) \<noteq> Inr ()
   \<and> verifyMetaTransactionSignature ex_platform ex_config
        (ex_request\<lparr>req_signature := ''sig:0xB2''\<rparr>) = Inl ''Invalid meta-transaction signature''"
proof -
  have bad: "verifyMetaTransactionSignature ex_platform ex_config
        (ex_request\<lparr>req_signature := ''sig:0xB2''\<rparr>) \<noteq> Inr ()"
    by (simp add: relay_defs example_defs text_defs)
  have good: "verifyMetaTransactionSignature ex_platform ex_config ex_request = Inr ()"
    by (simp add: relay_defs example_defs text_defs)
  from verify_signature_accepts_iff
      [of ex_platform ex_config "ex_request\<lparr>req_signature := ''sig:0xB2''\<rparr>"] bad good
  show ?thesis by blast
qed

section \<open>Updating a stored record\<close>

text \<open>
  Claim C6 as stated (only a pending record can change status; a record in a terminal
  state is never modified) fails: \<^verbatim>\<open>updateTransaction\<close> turns a confirmed record into a
  failed one.
\<close>

theorem terminal_record_modified_counterexample:
  "map status (transactions ex_confirmed_db) = [confirmed]
   \<and> map status (transactions
         (snd (updateTransaction ex_confirmed_db 2000 ''0xh1'' (no_updates\<lparr>upd_status := Some failed\<rparr>))))
      = [failed]"
  by (simp add: store_defs example_defs pending_record_def Let_def)

lemma find_map_replace:
  assumes "find (\<lambda>row. tx_hash row = h) rows = Some row" and "tx_hash new = h"
  shows "new \<in> set (map (\<lambda>row. if tx_hash row = h then new else row) rows)"
  using assms by (induction rows) (auto split: if_splits)

lemma filter_map_replace:
  assumes "tx_hash new = h"
  shows "filter (\<lambda>row. tx_hash row \<noteq> h) (map (\<lambda>row. if tx_hash row = h then new else row) rows)
           = filter (\<lambda>row. tx_hash row \<noteq> h) rows"
  using assms by (induction rows) auto

lemma status_apply_updates: "upd_status u = Some s \<Longrightarrow> status (apply_updates now u row) = s"
  by (simp add: apply_updates_def upd_def)

lemma tx_hash_apply_updates:
  "upd_tx_hash u = None \<Longrightarrow> tx_hash (apply_updates now u row) = tx_hash row"
  by (simp add: apply_updates_def upd_def)

lemma find_tx_hash: "find (\<lambda>row. tx_hash row = h) rows = Some row \<Longrightarrow> tx_hash row = h"
  by (induction rows) (auto split: if_splits)

text \<open>
  Claim C6 as amended: \<^verbatim>\<open>updateTransaction\<close> selects the record by its hash alone.
  For a stored record in any status (pending, confirmed or failed: the record type has no
  fourth), an update that carries a status, keeps the hash and meets the schema's
  constraints returns the record with the new status, stores it, and leaves the records
  with other hashes as they were.
\<close>

theorem update_ignores_current_status:
  assumes ok: "db_failure d = None"
    and row: "find (\<lambda>row. tx_hash row = h) (transactions d) = Some row"
    and st: "upd_status u = Some s"
    and same_hash: "upd_tx_hash u = None"
    and fits: "update_fits u"
    and no_clash: "\<not> key_clash (transactions d) h (apply_updates now u row)"
  shows "\<exists>new d'. updateTransaction d now h u = (Inr (Some new), d')
           \<and> status new = s
           \<and> new \<in> set (transactions d')
           \<and> filter (\<lambda>r. tx_hash r \<noteq> h) (transactions d')
               = filter (\<lambda>r. tx_hash r \<noteq> h) (transactions d)"
proof -
  let ?new = "apply_updates now u row"
  let ?d' = "d\<lparr>transactions := map (\<lambda>row. if tx_hash row = h then ?new else row) (transactions d)\<rparr>"
  have keys: "\<not> no_keys u" using st by (simp add: no_keys_def)
  have h: "tx_hash ?new = h"
    using same_hash find_tx_hash [OF row] by (simp add: tx_hash_apply_updates)
  have run: "updateTransaction d now h u = (Inr (Some ?new), ?d')"
    using ok row keys fits no_clash by (simp add: updateTransaction_def Let_def)
  moreover have "status ?new = s" using st by (rule status_apply_updates)
  moreover have "?new \<in> set (transactions ?d')"
    using find_map_replace [OF row h] by simp
  moreover have "filter (\<lambda>r. tx_hash r \<noteq> h) (transactions ?d')
                   = filter (\<lambda>r. tx_hash r \<noteq> h) (transactions d)"
    using filter_map_replace [OF h] by simp
  ultimately show ?thesis by blast
qed

theorem update_ignores_current_status_witness:
  "\<exists>new d'. updateTransaction ex_confirmed_db 2000 ''0xh1'' (no_updates\<lparr>upd_status := Some pending\<rparr>)
               = (Inr (Some new), d')
     \<and> status new = pending
     \<and> new \<in> set (transactions d')
     \<and> filter (\<lambda>r. tx_hash r \<noteq> ''0xh1'') (transactions d')
         = filter (\<lambda>r. tx_hash r \<noteq> ''0xh1'') (transactions ex_confirmed_db)"
proof -
  let ?row = "(pending_record ex_request ''0xh1'' 1200000000 ''0xRelayer'')
           \<lparr>row_id := Some 1, status := confirmed, gas_used := Some ''21000'',
            block_number := Some 7, created_at := Some 1000, updated_at := Some 1500\<rparr>"
  let ?u = "no_updates\<lparr>upd_status := Some pending\<rparr>"
  have ok: "db_failure ex_confirmed_db = None" by (simp add: ex_confirmed_db_def)
  have row: "find (\<lambda>row. tx_hash row = ''0xh1'') (transactions ex_confirmed_db) = Some ?row"
    by (simp add: ex_confirmed_db_def pending_record_def)
  have st: "upd_status ?u = Some pending" by simp
  have same_hash: "upd_tx_hash ?u = None" by (simp add: no_updates_def)
  have fits: "update_fits ?u" by (simp add: no_updates_def update_fits_def fits_def fits_integer_def)
  have no_clash: "\<not> key_clash (transactions ex_confirmed_db) ''0xh1'' (apply_updates 2000 ?u ?row)"
    by (simp add: key_clash_def ex_confirmed_db_def pending_record_def)
  from update_ignores_current_status [OF ok row st same_hash fits no_clash]
  show ?thesis .
qed

section \<open>The policy engine: errors during evaluation\<close>

text \<open>
  Claim C10 as stated (any exception raised while the rules are evaluated, a
  counter-cache read error for example, gives a rejection) fails for the example it
  names: the Redis command of \<^verbatim>\<open>getTransactionCount\<close> throws, the error is caught there
  and counted as 0, and the request is admitted, although the same counter on a working
  Redis exhausts the hourly limit.
\<close>

theorem policy_admits_on_cache_error_counterexample:
  "fst (client_zRemRangeByScore ex_redis_down (txCountKey ''localhost'' ''0xa1'') 0
          (1000 - oneHour)) = Inl ''ECONNREFUSED''
   \<and> fst (checkPolicies ex_BigInt ex_engine ex_redis_down 1000 ex_request) = Inr allow
   \<and> fst (checkPolicies ex_BigInt ex_engine ex_redis_one 1000 ex_request)
       = Inr (reject ''Hourly transaction limit exceeded'')"
  by (simp add: policy_defs redis_defs example_defs text_defs Let_def)

lemma count_on_failure:
  "redis_failure r \<noteq> None \<Longrightarrow> getTransactionCount r now a n window = (0, r)"
  by (auto simp: getTransactionCount_def client_zRemRangeByScore_def Let_def)

text \<open>
  Claim C10 as amended: an initialised engine never propagates an exception and always
  returns a result; whenever one of the rule checks throws (a rule or request field that
  \<^verbatim>\<open>BigInt\<close> cannot convert), \<^verbatim>\<open>checkPolicies\<close> returns the rejection
  "Policy check failed". A counter-cache read error is not such a throw:
  \<^verbatim>\<open>getTransactionCount\<close> absorbs it and returns 0.
\<close>

theorem escaping_errors_fail_closed:
  assumes "isInitialized pe"
  shows "(\<exists>res r'. checkPolicies bi pe r now request = (Inr res, r'))
       \<and> (\<forall>e r'. checkPolicies_try bi pe r now request = (Inl e, r')
             \<longrightarrow> checkPolicies bi pe r now request = (Inr (reject ''Policy check failed''), r'))
       \<and> (redis_failure r \<noteq> None \<longrightarrow> getTransactionCount r now a n window = (0, r))"
  using assms
  by (auto simp: checkPolicies_def count_on_failure split: prod.splits sum.splits)

theorem escaping_errors_fail_closed_witness:
  "isInitialized ex_engine_malformed
   \<and> fst (checkPolicies_try ex_BigInt ex_engine_malformed empty_redis 1000 ex_request)
       = Inl ''Cannot convert abc to a BigInt''
   \<and> fst (checkPolicies ex_BigInt ex_engine_malformed empty_redis 1000 ex_request)
       = Inr (reject ''Policy check failed'')
   \<and> redis_failure ex_redis_down \<noteq> None
   \<and> getTransactionCount ex_redis_down 1000 ''0xa1'' ''localhost'' oneHour = (0, ex_redis_down)"
proof -
  have init: "isInitialized ex_engine_malformed"
    by (simp add: ex_engine_malformed_def ex_engine_def)
  have thrown: "fst (checkPolicies_try ex_BigInt ex_engine_malformed empty_redis 1000 ex_request)
       = Inl ''Cannot convert abc to a BigInt''"
    by (simp add: policy_defs redis_defs example_defs text_defs Let_def)
  have down: "redis_failure ex_redis_down \<noteq> None"
    by (simp add: ex_redis_down_def)
  from escaping_errors_fail_closed [OF init, where bi = ex_BigInt and r = empty_redis
      and now = 1000 and request = ex_request]
  have caught: "fst (checkPolicies ex_BigInt ex_engine_malformed empty_redis 1000 ex_request)
       = Inr (reject ''Policy check failed'')"
    using thrown by (metis fst_conv prod.collapse)
  from escaping_errors_fail_closed [OF init, where r = ex_redis_down and now = 1000
      and a = "''0xa1''" and n = "''localhost''" and window = oneHour] down
  have zero: "getTransactionCount ex_redis_down 1000 ''0xa1'' ''localhost'' oneHour
       = (0, ex_redis_down)"
    by blast
  from init thrown caught down zero
  show ?thesis
    by blast
qed

section \<open>The quota check reads no value sums and one window\<close>

text \<open>
  Claim C4 (the quota check uses the address's actual count and value sum over the last
  hour and the last day) fails on the code in two ways. The value sum is the constant 0:
  with an hourly value cap of 100 and one transaction recorded in the last hour, a
  request of value 60 passes whatever that transaction's value was. The daily count is
  read after the hourly trim has deleted every entry older than an hour: with a daily
  limit of 2 and two entries three and two hours old, both inside the
  day, the request passes and the entries are gone.
\<close>

theorem quota_ignores_value_and_day_window:
  "getTransactionValue ''0xa1'' ''localhost'' oneHour = 0
   \<and> fst (checkPolicies ex_BigInt ex_engine_day ex_redis_one 1000 ex_request) = Inr allow
   \<and> entries_in_window ex_redis_day (txCountKey ''localhost'' ''0xa1'') (4 * oneHour) oneDay = 2
   \<and> maxTransactionsPerDay ex_quota_day = 2
   \<and> fst (checkPolicies ex_BigInt ex_engine_day ex_redis_day (4 * oneHour) ex_request) = Inr allow
   \<and> zsets (snd (checkPolicies ex_BigInt ex_engine_day ex_redis_day (4 * oneHour) ex_request))
        (txCountKey ''localhost'' ''0xa1'') = []"
  by (simp add: policy_defs redis_defs example_defs text_defs Let_def)

section \<open>A successful relay records no counter\<close>

text \<open>
  Claim C5 (a successful broadcast adds one entry to the count of the request's
  \<^verbatim>\<open>from\<close>, and its value to the value sum) fails on the code: after a successful run
  the counter of \<^verbatim>\<open>0xa1\<close> is still empty, and under a quota of one transaction an hour
  the policy engine admits the same address again.
\<close>

theorem relay_records_no_counter:
  "fst (relayTransaction ex_platform ex_config ex_service 1000 ex_request ex_world)
     = Inr \<lparr>success = True, txHash = Some ''0xhash:signed:5'', error = None,
            gasUsed = Some ''21000'', gasPrice = Some ''1200000000''\<rparr>
   \<and> zsets (redis (snd (relayTransaction ex_platform ex_config ex_service 1000 ex_request ex_world)))
        (txCountKey ''localhost'' ''0xa1'') = []
   \<and> maxTransactionsPerHour ex_quota = 1
   \<and> fst (checkPolicies ex_BigInt ex_engine
            (redis (snd (relayTransaction ex_platform ex_config ex_service 1000 ex_request ex_world)))
            2000 ex_request) = Inr allow"
  by (simp add: run_defs)

section \<open>Submission comes before persistence\<close>















section \<open>The transaction that a run hands over\<close>

text \<open>
  Whatever a run hands to the signer or to the bundle transport carries the gas price of
  \<^verbatim>\<open>getOptimalGasPrice\<close> and the gas limit of \<^verbatim>\<open>estimateGas\<close>, computed for the
  provider of the request's network.
\<close>

lemma relay_record_hands_nothing:
  assumes "relay_record cfg signer now request h gu gp w = (x, w2)"
  shows "\<exists>es. events w2 = events w @ es \<and> (\<forall>t. \<not> handed_over es t)"
  using assms
  by (auto simp: relay_record_def emit_def Let_def handed_over_def
      split: if_splits sum.splits prod.splits option.splits)

lemma relay_submit_hands:
  assumes "relay_submit cfg rs provider signer request transaction w = (x, w1)"
  shows "\<exists>es. events w1 = events w @ es \<and> (\<forall>t. handed_over es t \<longrightarrow> t = transaction)"
  using assms
  by (auto simp: relay_submit_def emit_def Let_def handed_over_def split: if_splits sum.splits)

lemma handed_over_append:
  "handed_over (es1 @ es2) t \<longleftrightarrow> handed_over es1 t \<or> handed_over es2 t"
  by (auto simp: handed_over_def)

lemma relay_dispatch_hands:
  assumes run: "relay_dispatch pf cfg rs provider signer now request w = (x, w')"
  shows "\<exists>es. events w' = events w @ es
           \<and> (\<forall>t. handed_over es t
                 \<longrightarrow> tx_gasPrice t = getOptimalGasPrice pf cfg provider
                     \<and> estimateGas pf request provider = Inr (tx_gasLimit t))"
proof (cases "estimateGas pf request provider")
  case (Inl e)
  with run have "w' = w" by (simp add: relay_dispatch_def Let_def)
  then show ?thesis by (simp add: handed_over_def)
next
  case (Inr gasLimit)
  obtain y r where nonce: "RelayerService_getNextNonce (cfg_keyPrefix cfg) (sgn_getAddress signer)
      (prov_getTransactionCount provider) (redis w) (req_network request) = (y, r)"
    by (cases "RelayerService_getNextNonce (cfg_keyPrefix cfg) (sgn_getAddress signer)
      (prov_getTransactionCount provider) (redis w) (req_network request)")
  show ?thesis
  proof (cases y)
    case (Inl e)
    with run Inr nonce have "w' = w\<lparr>redis := r\<rparr>"
      by (simp add: relay_dispatch_def Let_def)
    then show ?thesis by (simp add: handed_over_def)
  next
    case nonce_ok: (Inr nonce')
    let ?tx = "\<lparr>tx_to = req_to request, tx_value = req_value request,
                tx_data = req_data request, tx_gasLimit = gasLimit,
                tx_gasPrice = getOptimalGasPrice pf cfg provider, tx_nonce = nonce'\<rparr>"
    obtain s w1 where sub: "relay_submit cfg rs provider signer request ?tx (w\<lparr>redis := r\<rparr>) = (s, w1)"
      by (cases "relay_submit cfg rs provider signer request ?tx (w\<lparr>redis := r\<rparr>)")
    from relay_submit_hands [OF sub] obtain es1 where
      e1: "events w1 = events w @ es1" and h1: "\<forall>t. handed_over es1 t \<longrightarrow> t = ?tx"
      by auto
    show ?thesis
    proof (cases s)
      case (Inl e)
      with run Inr nonce nonce_ok sub have "w' = w1"
        by (simp add: relay_dispatch_def Let_def)
      then show ?thesis using e1 h1 Inr by auto
    next
      case sub_ok: (Inr hg)
      obtain h gu where hg: "hg = (h, gu)" by (cases hg)
      with run Inr nonce nonce_ok sub sub_ok
      have rec: "relay_record cfg signer now request h gu (getOptimalGasPrice pf cfg provider) w1
                   = (x, w')"
        by (simp add: relay_dispatch_def Let_def)
      from relay_record_hands_nothing [OF rec] obtain es2 where
        e2: "events w' = events w1 @ es2" and h2: "\<forall>t. \<not> handed_over es2 t"
        by auto
      have "events w' = events w @ (es1 @ es2)" using e1 e2 by simp
      moreover have "\<forall>t. handed_over (es1 @ es2) t \<longrightarrow> t = ?tx"
        using h1 h2 by (simp add: handed_over_append)
      ultimately show ?thesis using Inr by force
    qed
  qed
qed

lemma relayTransaction_hands:
  assumes run: "relayTransaction pf cfg rs now request w = (res, w')"
    and prov: "rs_providers rs (req_network request) = Some provider"
  shows "\<exists>es. events w' = events w @ es
           \<and> (\<forall>t. handed_over es t
                 \<longrightarrow> tx_gasPrice t = getOptimalGasPrice pf cfg provider
                     \<and> estimateGas pf request provider = Inr (tx_gasLimit t))"
proof -
  have quiet: ?thesis if "events w' = events w"
    using that by (simp add: handed_over_def)
  from run prov have
    "events w' = events w
     \<or> (\<exists>signer r x. relay_dispatch pf cfg rs provider signer now request (w\<lparr>redis := r\<rparr>) = (x, w'))"
    by (auto simp: relayTransaction_def relayTransaction_try_def
        split: sum.splits if_splits option.splits prod.splits)
  then show ?thesis
  proof
    assume "events w' = events w"
    then show ?thesis by (rule quiet)
  next
    assume "\<exists>signer r x. relay_dispatch pf cfg rs provider signer now request (w\<lparr>redis := r\<rparr>) = (x, w')"
    then obtain signer r x where
      d: "relay_dispatch pf cfg rs provider signer now request (w\<lparr>redis := r\<rparr>) = (x, w')"
      by blast
    from relay_dispatch_hands [OF d] show ?thesis by simp
  qed
qed

text \<open>
  And a run does hand its transaction over once the steps before submission succeed:
  the checks pass, the gas estimate returns and the nonce is acquired. Nothing between
  the gas price and the submission can reject the request.
\<close>

lemma relay_submit_hands_over:
  assumes "relay_submit cfg rs provider signer request transaction w = (x, w1)"
  shows "\<exists>es. events w1 = events w @ es \<and> handed_over es transaction"
  using assms
  by (auto simp: relay_submit_def emit_def Let_def handed_over_def split: if_splits sum.splits)

lemma relay_dispatch_hands_over:
  assumes run: "relay_dispatch pf cfg rs provider signer now request w = (x, w')"
    and est: "estimateGas pf request provider = Inr gasLimit"
    and nonce: "fst (RelayerService_getNextNonce (cfg_keyPrefix cfg) (sgn_getAddress signer)
                  (prov_getTransactionCount provider) (redis w) (req_network request)) = Inr n"
  shows "\<exists>es. events w' = events w @ es
           \<and> handed_over es
                \<lparr>tx_to = req_to request, tx_value = req_value request,
                 tx_data = req_data request, tx_gasLimit = gasLimit,
                 tx_gasPrice = getOptimalGasPrice pf cfg provider, tx_nonce = n\<rparr>"
proof -
  let ?tx = "\<lparr>tx_to = req_to request, tx_value = req_value request,
              tx_data = req_data request, tx_gasLimit = gasLimit,
              tx_gasPrice = getOptimalGasPrice pf cfg provider, tx_nonce = n\<rparr>"
  obtain r where acq: "RelayerService_getNextNonce (cfg_keyPrefix cfg) (sgn_getAddress signer)
      (prov_getTransactionCount provider) (redis w) (req_network request) = (Inr n, r)"
    using nonce
    by (cases "RelayerService_getNextNonce (cfg_keyPrefix cfg) (sgn_getAddress signer)
      (prov_getTransactionCount provider) (redis w) (req_network request)") simp
  obtain s w1 where sub: "relay_submit cfg rs provider signer request ?tx (w\<lparr>redis := r\<rparr>) = (s, w1)"
    by (cases "relay_submit cfg rs provider signer request ?tx (w\<lparr>redis := r\<rparr>)")
  from relay_submit_hands_over [OF sub] obtain es1 where
    e1: "events w1 = events w @ es1" and h1: "handed_over es1 ?tx"
    by auto
  show ?thesis
  proof (cases s)
    case (Inl e)
    with run est acq sub have "w' = w1" by (simp add: relay_dispatch_def Let_def)
    then show ?thesis using e1 h1 by blast
  next
    case (Inr hg)
    obtain h gu where hg: "hg = (h, gu)" by (cases hg)
    with run est acq sub Inr
    have rec: "relay_record cfg signer now request h gu (getOptimalGasPrice pf cfg provider) w1
                 = (x, w')"
      by (simp add: relay_dispatch_def Let_def)
    from relay_record_hands_nothing [OF rec] obtain es2 where
      e2: "events w' = events w1 @ es2"
      by auto
    have "events w' = events w @ (es1 @ es2)" using e1 e2 by simp
    moreover have "handed_over (es1 @ es2) ?tx" using h1 by (simp add: handed_over_append)
    ultimately show ?thesis by blast
  qed
qed

lemma relayTransaction_hands_over:
  assumes run: "relayTransaction pf cfg rs now request w = (res, w')"
    and pass: "passes_checks pf cfg rs now request w provider signer"
    and est: "estimateGas pf request provider = Inr gasLimit"
    and nonce: "acquired_nonce pf cfg rs now request w provider signer = Inr n"
  shows "\<exists>es. events w' = events w @ es
           \<and> handed_over es
                \<lparr>tx_to = req_to request, tx_value = req_value request,
                 tx_data = req_data request, tx_gasLimit = gasLimit,
                 tx_gasPrice = getOptimalGasPrice pf cfg provider, tx_nonce = n\<rparr>"
proof -
  obtain p r where pol: "checkPolicies (BigInt pf) (rs_policyEngine rs) (redis w) now request = (p, r)"
    by (cases "checkPolicies (BigInt pf) (rs_policyEngine rs) (redis w) now request")
  from pass pol obtain policyResult where p: "p = Inr policyResult" and ok: "allowed policyResult"
    by (auto simp: passes_checks_def split: sum.splits)
  from run pass pol p ok obtain x where
    d: "relay_dispatch pf cfg rs provider signer now request (w\<lparr>redis := r\<rparr>) = (x, w')"
    by (auto simp: passes_checks_def relayTransaction_def relayTransaction_try_def
        split: sum.splits prod.splits)
  from nonce pol have n: "fst (RelayerService_getNextNonce (cfg_keyPrefix cfg) (sgn_getAddress signer)
                  (prov_getTransactionCount provider) (redis (w\<lparr>redis := r\<rparr>))
                  (req_network request)) = Inr n"
    by (simp add: acquired_nonce_def)
  from relay_dispatch_hands_over [OF d est n] show ?thesis by simp
qed

section \<open>The effective fee\<close>

text \<open>
  Claim C8 as stated (the fee is clamped to the gas-cap rule's max-gas-price, and a run
  whose clamp falls below the suggestion is rejected with fee-cap-too-low) fails. With a
  suggestion of 200 gwei, a multiplier of 1.2, a configured maximum of 100 gwei and a
  gas-cap rule whose max-gas-price is 50 gwei, the fee is 100 gwei: above the rule's
  maximum, below the suggestion, and the run succeeds at that fee.
\<close>

theorem fee_cap_too_low_counterexample:
  "getOptimalGasPrice ex_platform ex_config (ex_provider\<lparr>prov_getFeeData := Inr (Some 200000000000)\<rparr>)
     = 100000000000
   \<and> map_option maxGasPrice (gasLimitRules (rs_policyEngine ex_service_fee200) ''*'')
     = Some ''50000000000''
   \<and> fst (relayTransaction ex_platform ex_config ex_service_fee200 1000 ex_request ex_world)
     = Inr \<lparr>success = True, txHash = Some ''0xhash:signed:5'', error = None,
            gasUsed = Some ''21000'', gasPrice = Some ''100000000000''\<rparr>"
  by (simp add: run_defs)

text \<open>
  Claim C8 as amended: in every run whose provider returns fee data, with a finite
  multiplier and a readable configured maximum, the effective fee is the suggested gas
  price (0 when there is none) times the multiplier in hundredths, divided by 100 towards
  zero, and capped at the configured \<^verbatim>\<open>maxGasPrice\<close>; every transaction the run hands
  to the signer or the bundle transport carries that fee. The fee rejects no request:
  whenever the checks before it pass, the gas estimate returns and the nonce is
  acquired, the run hands over the request's transaction with that fee, also when the
  cap lies below the suggestion.
\<close>

theorem effective_fee_capped_by_config:
  assumes run: "relayTransaction pf cfg rs now request w = (res, w')"
    and prov: "rs_providers rs (req_network request) = Some provider"
    and fee: "prov_getFeeData provider = Inr suggestion"
    and mult: "cfg_gasMultiplier100 cfg = Some m"
    and cap: "BigInt pf (cfg_maxGasPrice cfg) = Inr cap"
  shows "getOptimalGasPrice pf cfg provider
           = min (((case suggestion of None \<Rightarrow> 0 | Some g \<Rightarrow> g) * m) sdiv 100) cap
         \<and> (\<exists>es. events w' = events w @ es
               \<and> (\<forall>t. handed_over es t
                     \<longrightarrow> tx_gasPrice t
                         = min (((case suggestion of None \<Rightarrow> 0 | Some g \<Rightarrow> g) * m) sdiv 100) cap)
               \<and> (\<forall>signer gasLimit nonce.
                     passes_checks pf cfg rs now request w provider signer
                     \<and> estimateGas pf request provider = Inr gasLimit
                     \<and> acquired_nonce pf cfg rs now request w provider signer = Inr nonce
                     \<longrightarrow> handed_over es
                           \<lparr>tx_to = req_to request, tx_value = req_value request,
                            tx_data = req_data request, tx_gasLimit = gasLimit,
                            tx_gasPrice =
                              min (((case suggestion of None \<Rightarrow> 0 | Some g \<Rightarrow> g) * m) sdiv 100)
                                cap,
                            tx_nonce = nonce\<rparr>))"
proof -
  let ?fee = "min (((case suggestion of None \<Rightarrow> 0 | Some g \<Rightarrow> g) * m) sdiv 100) cap"
  have value_eq: "getOptimalGasPrice pf cfg provider = ?fee"
    using fee mult cap by (simp add: getOptimalGasPrice_def Let_def min_def)
  from relayTransaction_hands [OF run prov] obtain es where
    e: "events w' = events w @ es"
    and h: "\<forall>t. handed_over es t \<longrightarrow> tx_gasPrice t = getOptimalGasPrice pf cfg provider"
    by blast
  have "handed_over es
          \<lparr>tx_to = req_to request, tx_value = req_value request,
           tx_data = req_data request, tx_gasLimit = gasLimit,
           tx_gasPrice = ?fee, tx_nonce = nonce\<rparr>"
    if "passes_checks pf cfg rs now request w provider signer"
      and "estimateGas pf request provider = Inr gasLimit"
      and "acquired_nonce pf cfg rs now request w provider signer = Inr nonce"
    for signer gasLimit nonce
    using relayTransaction_hands_over [OF run that] e value_eq by auto
  with value_eq e h show ?thesis by auto
qed

theorem effective_fee_capped_by_config_witness:
  "rs_providers ex_service_fee200 (req_network ex_request)
     = Some (ex_provider\<lparr>prov_getFeeData := Inr (Some 200000000000)\<rparr>)
   \<and> prov_getFeeData (ex_provider\<lparr>prov_getFeeData := Inr (Some 200000000000)\<rparr>)
     = Inr (Some 200000000000)
   \<and> cfg_gasMultiplier100 ex_config = Some 120
   \<and> BigInt ex_platform (cfg_maxGasPrice ex_config) = Inr 100000000000
   \<and> passes_checks ex_platform ex_config ex_service_fee200 1000 ex_request ex_world
       (ex_provider\<lparr>prov_getFeeData := Inr (Some 200000000000)\<rparr>) ex_signer
   \<and> estimateGas ex_platform ex_request
       (ex_provider\<lparr>prov_getFeeData := Inr (Some 200000000000)\<rparr>) = Inr 25200
   \<and> acquired_nonce ex_platform ex_config ex_service_fee200 1000 ex_request ex_world
       (ex_provider\<lparr>prov_getFeeData := Inr (Some 200000000000)\<rparr>) ex_signer = Inr 5
   \<and> getOptimalGasPrice ex_platform ex_config
       (ex_provider\<lparr>prov_getFeeData := Inr (Some 200000000000)\<rparr>) = 100000000000
   \<and> handed_over
        (events (snd (relayTransaction ex_platform ex_config ex_service_fee200 1000 ex_request
                   ex_world)))
        \<lparr>tx_to = ''0xB2'', tx_value = ''60'', tx_data = ''0x'',
         tx_gasLimit = 25200, tx_gasPrice = 100000000000, tx_nonce = 5\<rparr>"
proof -
  let ?pr = "ex_provider\<lparr>prov_getFeeData := Inr (Some 200000000000)\<rparr>"
  let ?run = "relayTransaction ex_platform ex_config ex_service_fee200 1000 ex_request ex_world"
  have run: "?run = (fst ?run, snd ?run)" by simp
  have prov: "rs_providers ex_service_fee200 (req_network ex_request) = Some ?pr"
    by (simp add: ex_service_fee200_def ex_service_def ex_request_def)
  have fee: "prov_getFeeData ?pr = Inr (Some 200000000000)" by simp
  have mult: "cfg_gasMultiplier100 ex_config = Some 120"
    by (simp add: ex_config_def)
  have cap: "BigInt ex_platform (cfg_maxGasPrice ex_config) = Inr 100000000000"
    by (simp add: example_defs)
  have none: "events ex_world = []" by (simp add: ex_world_def)
  have pass: "passes_checks ex_platform ex_config ex_service_fee200 1000 ex_request ex_world
                ?pr ex_signer"
    by (simp add: passes_checks_def run_defs)
  have est: "estimateGas ex_platform ex_request ?pr = Inr 25200"
    by (simp add: run_defs)
  have acq: "acquired_nonce ex_platform ex_config ex_service_fee200 1000 ex_request ex_world
               ?pr ex_signer = Inr 5"
    by (simp add: acquired_nonce_def run_defs)
  have fee_value: "min (((case Some (200000000000::int) of None \<Rightarrow> 0 | Some g \<Rightarrow> g) * 120) sdiv 100)
                 100000000000 = (100000000000::int)"
    by (simp add: signed_divide_int_def)
  have fields: "req_to ex_request = ''0xB2''" "req_value ex_request = ''60''"
    "req_data ex_request = ''0x''"
    by (simp_all add: ex_request_def)
  from effective_fee_capped_by_config [OF run prov fee mult cap] pass est acq
  have "getOptimalGasPrice ex_platform ex_config ?pr = 100000000000
        \<and> handed_over (events (snd ?run))
            \<lparr>tx_to = ''0xB2'', tx_value = ''60'', tx_data = ''0x'',
             tx_gasLimit = 25200, tx_gasPrice = 100000000000, tx_nonce = 5\<rparr>"
    unfolding fee_value none fields by auto
  with prov fee mult cap pass est acq show ?thesis by blast
qed

section \<open>The gas limit\<close>

lemma sdiv_nonneg: "0 \<le> (a::int) \<Longrightarrow> 0 < b \<Longrightarrow> a sdiv b = a div b"
  by (cases "a = 0") (simp_all add: signed_divide_int_def)

lemma six_fifths: "(g::int) * 120 div 100 = g + g div 5"
proof -
  have "g * 120 div 100 = (20 * (g * 6)) div (20 * 5)" by simp
  also have "\<dots> = (g * 6) div 5" by (rule div_mult_mult1) simp
  also have "\<dots> = (g + g * 5) div 5" by (simp add: algebra_simps)
  also have "\<dots> = g + g div 5" by simp
  finally show ?thesis .
qed
text \<open>
  Claim C9 as stated (the limit never exceeds the declared gas, and an estimate above the
  declared gas is rejected with gas-limit-too-low) fails. With an estimate of 100000 and a
  declared gas of 50000 the limit is 120000, and the run signs and broadcasts a
  transaction with that limit.
\<close>

theorem gas_limit_too_low_counterexample:
  "estimateGas ex_platform (ex_request\<lparr>req_gas := ''50000''\<rparr>)
       (ex_provider\<lparr>prov_estimateGas := (\<lambda>c. Inr 100000)\<rparr>) = Inr 120000
   \<and> fst (relayTransaction ex_platform ex_config ex_service_gas100k 1000
            (ex_request\<lparr>req_gas := ''50000''\<rparr>) ex_world)
     = Inr \<lparr>success = True, txHash = Some ''0xhash:signed:5'', error = None,
            gasUsed = Some ''21000'', gasPrice = Some ''1200000000''\<rparr>
   \<and> take 2 (events (snd (relayTransaction ex_platform ex_config ex_service_gas100k 1000
            (ex_request\<lparr>req_gas := ''50000''\<rparr>) ex_world)))
     = [CallSignTransaction \<lparr>tx_to = ''0xB2'', tx_value = ''60'', tx_data = ''0x'',
          tx_gasLimit = 120000, tx_gasPrice = 1200000000, tx_nonce = 5\<rparr>,
        CallBroadcast ''signed:5'']"
  by (simp add: run_defs)

text \<open>
  Claim C9 as amended: in every run whose provider returns an estimate \<open>g\<close>, the gas
  limit is \<open>g\<close> plus a fifth of \<open>g\<close> (rounded down), whatever gas the request
  declares; it is never below the estimate, and every transaction the run hands to the
  signer or the bundle transport carries that limit. The estimate rejects no request:
  whenever the checks before it pass and the nonce is acquired, the run hands over the
  request's transaction with that limit, also when the estimate exceeds the declared
  gas.
\<close>

theorem gas_limit_is_estimate_plus_fifth:
  assumes run: "relayTransaction pf cfg rs now request w = (res, w')"
    and prov: "rs_providers rs (req_network request) = Some provider"
    and est: "prov_estimateGas provider (call_of request) = Inr g"
    and pos: "0 \<le> g"
  shows "estimateGas pf request provider = Inr (g + g div 5)
         \<and> g \<le> g + g div 5
         \<and> (\<exists>es. events w' = events w @ es
               \<and> (\<forall>t. handed_over es t \<longrightarrow> tx_gasLimit t = g + g div 5)
               \<and> (\<forall>signer nonce.
                     passes_checks pf cfg rs now request w provider signer
                     \<and> acquired_nonce pf cfg rs now request w provider signer = Inr nonce
                     \<longrightarrow> handed_over es
                           \<lparr>tx_to = req_to request, tx_value = req_value request,
                            tx_data = req_data request, tx_gasLimit = g + g div 5,
                            tx_gasPrice = getOptimalGasPrice pf cfg provider,
                            tx_nonce = nonce\<rparr>))"
proof -
  have "(g * 120) sdiv 100 = g * 120 div 100"
    using pos by (intro sdiv_nonneg) simp_all
  then have limit: "estimateGas pf request provider = Inr (g + g div 5)"
    using est by (simp add: estimateGas_def six_fifths)
  have above: "g \<le> g + g div 5" using pos by simp
  from relayTransaction_hands [OF run prov] limit obtain es where
    e: "events w' = events w @ es"
    and h: "\<forall>t. handed_over es t \<longrightarrow> tx_gasLimit t = g + g div 5"
    by auto
  have "handed_over es
          \<lparr>tx_to = req_to request, tx_value = req_value request,
           tx_data = req_data request, tx_gasLimit = g + g div 5,
           tx_gasPrice = getOptimalGasPrice pf cfg provider, tx_nonce = nonce\<rparr>"
    if "passes_checks pf cfg rs now request w provider signer"
      and "acquired_nonce pf cfg rs now request w provider signer = Inr nonce"
    for signer nonce
    using relayTransaction_hands_over [OF run that(1) limit that(2)] e by auto
  with limit above e h show ?thesis by auto
qed

theorem gas_limit_is_estimate_plus_fifth_witness:
  "rs_providers ex_service_gas100k (req_network (ex_request\<lparr>req_gas := ''50000''\<rparr>))
     = Some (ex_provider\<lparr>prov_estimateGas := (\<lambda>c. Inr 100000)\<rparr>)
   \<and> prov_estimateGas (ex_provider\<lparr>prov_estimateGas := (\<lambda>c. Inr 100000)\<rparr>)
       (call_of (ex_request\<lparr>req_gas := ''50000''\<rparr>)) = Inr 100000
   \<and> (0::int) \<le> 100000
   \<and> passes_checks ex_platform ex_config ex_service_gas100k 1000
       (ex_request\<lparr>req_gas := ''50000''\<rparr>) ex_world
       (ex_provider\<lparr>prov_estimateGas := (\<lambda>c. Inr 100000)\<rparr>) ex_signer
   \<and> acquired_nonce ex_platform ex_config ex_service_gas100k 1000
       (ex_request\<lparr>req_gas := ''50000''\<rparr>) ex_world
       (ex_provider\<lparr>prov_estimateGas := (\<lambda>c. Inr 100000)\<rparr>) ex_signer = Inr 5
   \<and> estimateGas ex_platform (ex_request\<lparr>req_gas := ''50000''\<rparr>)
       (ex_provider\<lparr>prov_estimateGas := (\<lambda>c. Inr 100000)\<rparr>) = Inr 120000
   \<and> handed_over
        (events (snd (relayTransaction ex_platform ex_config ex_service_gas100k 1000
                   (ex_request\<lparr>req_gas := ''50000''\<rparr>) ex_world)))
        \<lparr>tx_to = ''0xB2'', tx_value = ''60'', tx_data = ''0x'',
         tx_gasLimit = 120000, tx_gasPrice = 1200000000, tx_nonce = 5\<rparr>"
proof -
  let ?rq = "ex_request\<lparr>req_gas := ''50000''\<rparr>"
  let ?pr = "ex_provider\<lparr>prov_estimateGas := (\<lambda>c. Inr 100000)\<rparr>"
  let ?run = "relayTransaction ex_platform ex_config ex_service_gas100k 1000 ?rq ex_world"
  have run: "?run = (fst ?run, snd ?run)" by simp
  have prov: "rs_providers ex_service_gas100k (req_network ?rq) = Some ?pr"
    by (simp add: ex_service_gas100k_def ex_service_def ex_request_def)
  have est: "prov_estimateGas ?pr (call_of ?rq) = Inr 100000" by simp
  have pos: "(0::int) \<le> 100000" by simp
  have none: "events ex_world = []" by (simp add: ex_world_def)
  have pass: "passes_checks ex_platform ex_config ex_service_gas100k 1000 ?rq ex_world
                ?pr ex_signer"
    by (simp add: passes_checks_def run_defs)
  have acq: "acquired_nonce ex_platform ex_config ex_service_gas100k 1000 ?rq ex_world
               ?pr ex_signer = Inr 5"
    by (simp add: acquired_nonce_def run_defs)
  have fee: "getOptimalGasPrice ex_platform ex_config ?pr = 1200000000"
    by (simp add: run_defs)
  have fields: "req_to ?rq = ''0xB2''" "req_value ?rq = ''60''" "req_data ?rq = ''0x''"
    by (simp_all add: ex_request_def)
  from gas_limit_is_estimate_plus_fifth [OF run prov est pos] pass acq
  have "estimateGas ex_platform ?rq ?pr = Inr 120000
        \<and> handed_over (events (snd ?run))
            \<lparr>tx_to = ''0xB2'', tx_value = ''60'', tx_data = ''0x'',
             tx_gasLimit = 120000, tx_gasPrice = 1200000000, tx_nonce = 5\<rparr>"
    unfolding none fee fields by auto
  with prov est pos pass acq show ?thesis by blast
qed

section \<open>The policy engine: order of the rule kinds and the limit behind each reason\<close>

lemma allowed_simps [simp]: "allowed allow" "\<not> allowed (reject m)"
  by (simp_all add: allow_def reject_def)

lemma reason_simps [simp]: "reason allow = None" "reason (reject m) = Some m"
  by (simp_all add: allow_def reject_def)

























lemma reason_of_not_failure: "reason_of net l \<noteq> ''Policy check failed''"
  by (cases l) simp_all




end
